theory Spec2Isabelle
  imports
    Main
    "HOL-Library.Char_ord"
    "HOL-Library.List_Lexorder"
    "HOL-Library.Product_Lexorder"
begin

section \<open>Values, documents and the platform\<close>

text \<open>
  The callable functions of \<^verbatim>\<open>functions/index.js\<close> receive JSON payloads and read and
  write schemaless documents. A value of either is a \<open>jsval\<close>; a JavaScript expression
  that may be \<^verbatim>\<open>undefined\<close> is a \<open>jsval option\<close> with \<open>None\<close> for \<^verbatim>\<open>undefined\<close>
  (neither JSON nor the document store can hold \<^verbatim>\<open>undefined\<close>). Numbers are the
  integers (no claim depends on fractions); \<open>JTimestamp\<close> is a stored timestamp in
  milliseconds since the epoch; arrays and nested maps are carried but never inspected.
\<close>

datatype jsval =
    JNull
  | JBool bool
  | JNum int
  | JStr string
  | JTimestamp int
  | JArr "jsval list"
  | JObj "(string \<times> jsval) list"

type_synonym obj = "string \<rightharpoonup> jsval"

type_synonym doc = "string \<times> obj"

text \<open>A field read \<^verbatim>\<open>o.k\<close> is \<open>o k\<close>. Truthiness, \<^verbatim>\<open>typeof\<close>, \<^verbatim>\<open>Array.isArray\<close> and
  \<^verbatim>\<open>===\<close> (by value on primitives, by reference on objects: two snapshots never share
  an object) as the language defines them.\<close>

fun truthy :: "jsval option \<Rightarrow> bool" where
  "truthy None = False"
| "truthy (Some JNull) = False"
| "truthy (Some (JBool b)) = b"
| "truthy (Some (JNum n)) = (n \<noteq> 0)"
| "truthy (Some (JStr s)) = (s \<noteq> [])"
| "truthy (Some (JTimestamp t)) = True"
| "truthy (Some (JArr xs)) = True"
| "truthy (Some (JObj kvs)) = True"

fun typeof :: "jsval option \<Rightarrow> string" where
  "typeof None = ''undefined''"
| "typeof (Some JNull) = ''object''"
| "typeof (Some (JBool b)) = ''boolean''"
| "typeof (Some (JNum n)) = ''number''"
| "typeof (Some (JStr s)) = ''string''"
| "typeof (Some (JTimestamp t)) = ''object''"
| "typeof (Some (JArr xs)) = ''object''"
| "typeof (Some (JObj kvs)) = ''object''"

fun isArray :: "jsval option \<Rightarrow> bool" where
  "isArray (Some (JArr xs)) = True"
| "isArray v = False"

fun primitive :: "jsval \<Rightarrow> bool" where
  "primitive (JTimestamp t) = False"
| "primitive (JArr xs) = False"
| "primitive (JObj kvs) = False"
| "primitive v = True"

fun strict_eq :: "jsval option \<Rightarrow> jsval option \<Rightarrow> bool" where
  "strict_eq None None = True"
| "strict_eq (Some a) (Some b) = (primitive a \<and> a = b)"
| "strict_eq a b = False"

text \<open>\<^verbatim>\<open>a || b\<close> on values.\<close>

definition or_else :: "jsval option \<Rightarrow> jsval option \<Rightarrow> jsval option" where
  "or_else a b = (if truthy a then a else b)"

subsection \<open>Errors\<close>

text \<open>The codes of \<^verbatim>\<open>functions.https.HttpsError\<close> that the file throws; a failure
  the store reports, whose \<^verbatim>\<open>code\<close> is a number; and every other exception (a
  \<^verbatim>\<open>TypeError\<close>, an argument a client library refuses), which has no \<^verbatim>\<open>code\<close>
  that \<^verbatim>\<open>HttpsError\<close> knows.\<close>

datatype code =
    Unauthenticated
  | PermissionDenied
  | InvalidArgument
  | NotFound
  | AlreadyExists
  | FailedPrecondition
  | Internal

datatype exn = HttpsError code | StoreError | OtherError

subsection \<open>The world: store, gateway, clock and runtime\<close>

text \<open>A query condition (\<^verbatim>\<open>.where(field, op, value)\<close>). The bound of a range condition is a
  JavaScript \<^verbatim>\<open>Date\<close>: \<open>None\<close> is \<^verbatim>\<open>Invalid Date\<close>.\<close>

datatype cond =
    Eq string "jsval option"
  | Neq string jsval
  | Ge string "int option"
  | Le string "int option"

record notification =
  title :: "jsval option"
  body :: string
  image :: "jsval option"

text \<open>Every call to the store and to the gateway's client is recorded, in order; a
  query condition or a document reference that the store's client refuses throws before
  any call and leaves no record.\<close>

datatype event =
    Query string "cond list"
  | Get string string
  | Add string string
  | Update string string
  | Multicast "jsval list" notification

text \<open>
  \<open>store w c\<close> are the documents of collection \<open>c\<close>; operations on a collection named in
  \<open>down w\<close> fail with a store error; \<open>clock w\<close> is the time in milliseconds, read by \<^verbatim>\<open>new Date()\<close> and
  stamped by \<^verbatim>\<open>serverTimestamp()\<close>; \<open>tz w\<close> is the offset of the process's local time
  from UTC in milliseconds (a fixed-offset zone); \<open>fresh w n\<close> is the \<open>n\<close>-th identifier the
  store generates and \<open>issued w\<close> counts those given out; \<open>date_parse w\<close> is the runtime's
  \<^verbatim>\<open>Date.parse\<close> and \<open>to_text w\<close> its string conversion of values that are not strings.
\<close>

record world =
  store :: "string \<Rightarrow> doc list"
  down :: "string list"
  clock :: int
  tz :: int
  issued :: nat
  fresh :: "nat \<Rightarrow> string"
  date_parse :: "string \<Rightarrow> int option"
  to_text :: "jsval \<Rightarrow> string"
  trace :: "event list"

type_synonym 'a action = "world \<Rightarrow> (exn + 'a) \<times> world"

definition ret :: "'a \<Rightarrow> 'a action" where
  "ret x w = (Inr x, w)"

definition throw :: "exn \<Rightarrow> 'a action" where
  "throw e w = (Inl e, w)"

definition seq :: "'a action \<Rightarrow> ('a \<Rightarrow> 'b action) \<Rightarrow> 'b action" where
  "seq m f w = (case m w of (Inl e, w') \<Rightarrow> (Inl e, w') | (Inr x, w') \<Rightarrow> f x w')"

definition try_catch :: "'a action \<Rightarrow> (exn \<Rightarrow> 'a action) \<Rightarrow> 'a action" where
  "try_catch m h w = (case m w of (Inl e, w') \<Rightarrow> h e w' | (Inr x, w') \<Rightarrow> (Inr x, w'))"

definition get_world :: "(world \<Rightarrow> 'a) \<Rightarrow> 'a action" where
  "get_world f w = (Inr (f w), w)"

definition log :: "event \<Rightarrow> world \<Rightarrow> world" where
  "log e w = w\<lparr>trace := trace w @ [e]\<rparr>"

subsection \<open>The document store\<close>

text \<open>A stored timestamp lies between the years 1 and 9999; the store's client refuses
  to convert any other \<^verbatim>\<open>Date\<close>, \<^verbatim>\<open>Invalid Date\<close> included, and refuses
  \<^verbatim>\<open>undefined\<close> as a value.\<close>

definition storable_date :: "int option \<Rightarrow> bool" where
  "storable_date d =
     (case d of None \<Rightarrow> False
      | Some t \<Rightarrow> - 62135596800000 \<le> t \<and> t \<le> 253402300799999)"

fun cond_ok :: "cond \<Rightarrow> bool" where
  "cond_ok (Eq f v) = (v \<noteq> None)"
| "cond_ok (Neq f v) = True"
| "cond_ok (Ge f d) = storable_date d"
| "cond_ok (Le f d) = storable_date d"

fun holds :: "obj \<Rightarrow> cond \<Rightarrow> bool" where
  "holds d (Eq f v) = (d f = v)"
| "holds d (Neq f v) = (d f \<noteq> None \<and> d f \<noteq> Some v)"
| "holds d (Ge f b) =
     (case b of None \<Rightarrow> False
      | Some t0 \<Rightarrow> (case d f of Some (JTimestamp t) \<Rightarrow> t0 \<le> t | _ \<Rightarrow> False))"
| "holds d (Le f b) =
     (case b of None \<Rightarrow> False
      | Some t0 \<Rightarrow> (case d f of Some (JTimestamp t) \<Rightarrow> t \<le> t0 | _ \<Rightarrow> False))"

definition matching :: "cond list \<Rightarrow> doc list \<Rightarrow> doc list" where
  "matching cs ds = filter (\<lambda>d. list_all (holds (snd d)) cs) ds"

text \<open>\<^verbatim>\<open>db.collection(c).where(...)...get()\<close>: a condition the client refuses throws before
  anything is sent; otherwise the read is attempted and fails when the collection is
  down. The snapshot keeps the stored order.\<close>

definition query :: "string \<Rightarrow> cond list \<Rightarrow> doc list action" where
  "query c cs w =
     (if \<not> list_all cond_ok cs then (Inl OtherError, w)
      else if c \<in> set (down w) then (Inl StoreError, log (Query c cs) w)
      else (Inr (matching cs (store w c)), log (Query c cs) w))"

text \<open>\<^verbatim>\<open>db.collection(c).doc(id).get()\<close>: the reference needs a non-empty string.
  An identifier is taken as one path segment: the nested paths that a string with
  \<^verbatim>\<open>/\<close> would address are not told apart.\<close>

definition doc_id :: "jsval option \<Rightarrow> string option" where
  "doc_id v = (case v of Some (JStr s) \<Rightarrow> (if s = [] then None else Some s) | _ \<Rightarrow> None)"

definition get_doc :: "string \<Rightarrow> jsval option \<Rightarrow> (string \<times> obj option) action" where
  "get_doc c v w =
     (case doc_id v of
        None \<Rightarrow> (Inl OtherError, w)
      | Some i \<Rightarrow>
          if c \<in> set (down w) then (Inl StoreError, log (Get c i) w)
          else (Inr (i, map_of (store w c) i), log (Get c i) w))"

text \<open>\<^verbatim>\<open>db.collection(c).add(d)\<close> appends a document under a generated identifier.\<close>

definition add_doc :: "string \<Rightarrow> obj \<Rightarrow> string action" where
  "add_doc c d w =
     (if c \<in> set (down w) then (Inl StoreError, log (Add c (fresh w (issued w))) w)
      else (Inr (fresh w (issued w)),
            log (Add c (fresh w (issued w)))
              (w\<lparr>store := (store w)(c := store w c @ [(fresh w (issued w), d)]),
                 issued := Suc (issued w)\<rparr>)))"

text \<open>\<^verbatim>\<open>ref.update(fields)\<close> merges the fields into the stored document, as they
  are; the store reports a document that is not there.\<close>

definition merge_into :: "string \<Rightarrow> obj \<Rightarrow> doc list \<Rightarrow> doc list" where
  "merge_into i fs ds = map (\<lambda>d. if fst d = i then (i, snd d ++ fs) else d) ds"

definition update_doc :: "string \<Rightarrow> string \<Rightarrow> obj \<Rightarrow> unit action" where
  "update_doc c i fs w =
     (if c \<in> set (down w) \<or> map_of (store w c) i = None
      then (Inl StoreError, log (Update c i) w)
      else (Inr (), log (Update c i) (w\<lparr>store := (store w)(c := merge_into i fs (store w c))\<rparr>)))"

text \<open>\<^verbatim>\<open>messaging.sendEachForMulticast({tokens, notification})\<close>. The gateway's client
  refuses a call with no token or with more than 500, and throws; any other call
  resolves, the outcome of each delivery inside a response that the file never reads.
  The call is recorded either way.\<close>

definition sendEachForMulticast :: "jsval list \<Rightarrow> notification \<Rightarrow> unit action" where
  "sendEachForMulticast tokens n w =
     (if tokens = [] \<or> 500 < length tokens then (Inl OtherError, log (Multicast tokens n) w)
      else (Inr (), log (Multicast tokens n) w))"

text \<open>\<^verbatim>\<open>admin.firestore.FieldValue.serverTimestamp()\<close> and
  \<^verbatim>\<open>admin.firestore.Timestamp.fromDate(d)\<close>.\<close>

definition serverTimestamp :: "jsval action" where
  "serverTimestamp = get_world (\<lambda>w. JTimestamp (clock w))"

definition fromDate :: "int option \<Rightarrow> jsval action" where
  "fromDate d =
     (case d of None \<Rightarrow> throw OtherError
      | Some t \<Rightarrow> if storable_date (Some t) then ret (JTimestamp t) else throw OtherError)"

subsection \<open>Dates\<close>

text \<open>A \<^verbatim>\<open>Date\<close> holds at most 8.64e15 milliseconds either side of the epoch.
  \<^verbatim>\<open>new Date(v)\<close> parses a string, takes a number as milliseconds, and converts any
  other object to a string first.\<close>

definition time_clip :: "int \<Rightarrow> int option" where
  "time_clip t = (if - 8640000000000000 \<le> t \<and> t \<le> 8640000000000000 then Some t else None)"

definition new_Date :: "world \<Rightarrow> jsval option \<Rightarrow> int option" where
  "new_Date w v =
     (case v of
        None \<Rightarrow> None
      | Some JNull \<Rightarrow> Some 0
      | Some (JBool b) \<Rightarrow> Some (if b then 1 else 0)
      | Some (JNum n) \<Rightarrow> time_clip n
      | Some (JStr s) \<Rightarrow> date_parse w s
      | Some x \<Rightarrow> date_parse w (to_text w x))"

text \<open>The functions of \<^verbatim>\<open>date-fns\<close> that the file imports, on the local time of a
  zone \<open>z\<close> milliseconds ahead of UTC. The calendar is the proleptic Gregorian one,
  counted in days since 1970-01-01.\<close>

definition days_from_civil :: "int \<Rightarrow> int \<Rightarrow> int \<Rightarrow> int" where
  "days_from_civil y m d =
     (let y' = (if m \<le> 2 then y - 1 else y);
          era = y' div 400;
          yoe = y' - era * 400;
          doy = (153 * (if 2 < m then m - 3 else m + 9) + 2) div 5 + d - 1;
          doe = yoe * 365 + yoe div 4 - yoe div 100 + doy
      in era * 146097 + doe - 719468)"

definition civil_from_days :: "int \<Rightarrow> int \<times> int \<times> int" where
  "civil_from_days n =
     (let z = n + 719468;
          era = z div 146097;
          doe = z - era * 146097;
          yoe = (doe - doe div 1460 + doe div 36524 - doe div 146096) div 365;
          doy = doe - (365 * yoe + yoe div 4 - yoe div 100);
          mp = (5 * doy + 2) div 153;
          d = doy - (153 * mp + 2) div 5 + 1;
          m = (if mp < 10 then mp + 3 else mp - 9);
          y = yoe + era * 400 + (if m \<le> 2 then 1 else 0)
      in (y, m, d))"

definition startOfDay :: "int \<Rightarrow> int option \<Rightarrow> int option" where
  "startOfDay z d =
     (case d of None \<Rightarrow> None | Some t \<Rightarrow> time_clip (t - (t + z) mod 86400000))"

definition endOfDay :: "int \<Rightarrow> int option \<Rightarrow> int option" where
  "endOfDay z d =
     (case d of None \<Rightarrow> None | Some t \<Rightarrow> time_clip (t - (t + z) mod 86400000 + 86399999))"

definition addDays :: "int option \<Rightarrow> int \<Rightarrow> int option" where
  "addDays d n = (case d of None \<Rightarrow> None | Some t \<Rightarrow> time_clip (t + n * 86400000))"

text \<open>\<^verbatim>\<open>subMonths(date, n)\<close>: the same time of day on the same day of the month \<open>n\<close>
  months earlier, or on that month's last day when it is shorter.\<close>

definition subMonths :: "int \<Rightarrow> int \<Rightarrow> int \<Rightarrow> int" where
  "subMonths z t n =
     (let loc = t + z;
          tod = loc mod 86400000;
          (y, m, d) = civil_from_days (loc div 86400000);
          k = y * 12 + (m - 1) - n;
          first = days_from_civil (k div 12) (k mod 12 + 1) 1;
          daysInMonth = days_from_civil ((k + 1) div 12) ((k + 1) mod 12 + 1) 1 - first;
          d' = (if daysInMonth \<le> d then daysInMonth else d)
      in (first + d' - 1) * 86400000 + tod - z)"

subsection \<open>Strings\<close>

text \<open>A value inside a template literal.\<close>

definition text_of :: "world \<Rightarrow> jsval option \<Rightarrow> string" where
  "text_of w v =
     (case v of None \<Rightarrow> ''undefined'' | Some (JStr s) \<Rightarrow> s | Some x \<Rightarrow> to_text w x)"

text \<open>The literals of the file that are not ASCII, as UTF-8.\<close>

definition str_Confirmacion :: string where
  "str_Confirmacion = ''Confirmaci'' @ [CHR 0xC3, CHR 0xB3] @ ''n''"

definition str_Nuevo_Escenario :: string where
  "str_Nuevo_Escenario = [CHR 0xC2, CHR 0xA1] @ ''Nuevo Escenario!''"

definition str_Recuerda :: string where
  "str_Recuerda = ''Recuerda tu cita pr'' @ [CHR 0xC3, CHR 0xB3] @ ''xima en ''"

definition str_Fotos :: string where
  "str_Fotos = ''Tus fotos ya est'' @ [CHR 0xC3, CHR 0xA1] @ ''n disponibles en la app.''"

section \<open>Authorization check\<close>

text \<open>
  \<^verbatim>\<open>esAdministrador\<close> as first written (lines 10 to 14): the lookup is not guarded.
\<close>

definition esAdministrador_v1 :: "string option \<Rightarrow> bool action" where
  "esAdministrador_v1 uid =
     (if \<not> truthy (map_option JStr uid) then ret False
      else seq (query ''Admin'' [Eq ''uidClient'' (map_option JStr uid)])
             (\<lambda>doc. ret (doc \<noteq> [])))"

text \<open>
  \<^verbatim>\<open>esAdministrador\<close> as revised (lines 481 to 489): the lookup sits in a
  \<^verbatim>\<open>try\<close> whose \<^verbatim>\<open>catch\<close> returns false.
\<close>

definition esAdministrador :: "string option \<Rightarrow> bool action" where
  "esAdministrador uid =
     (if \<not> truthy (map_option JStr uid) then ret False
      else try_catch
             (seq (query ''Admin'' [Eq ''uidClient'' (map_option JStr uid)])
                (\<lambda>doc. ret (doc \<noteq> [])))
             (\<lambda>e. ret False))"

text \<open>The membership records that match an identity.\<close>

definition admin_records :: "world \<Rightarrow> string \<Rightarrow> doc list" where
  "admin_records w u = filter (\<lambda>d. snd d ''uidClient'' = Some (JStr u)) (store w ''Admin'')"

section \<open>Helpers of the file\<close>

text \<open>\<^verbatim>\<open>guardarNotificacion\<close> as first written (lines 26 to 35). The parameter
  \<^verbatim>\<open>imagen\<close> defaults to \<^verbatim>\<open>null\<close>; the store's client refuses a document with an
  \<^verbatim>\<open>undefined\<close> field before sending anything.\<close>

definition notification_doc ::
    "jsval option \<Rightarrow> jsval option \<Rightarrow> string \<Rightarrow> string \<Rightarrow> jsval option \<Rightarrow> jsval \<Rightarrow> obj option" where
  "notification_doc uid titulo tipo mensaje imagen ts =
     (case (uid, titulo) of
        (Some u, Some t) \<Rightarrow>
          Some [''uid_usuario'' \<mapsto> u, ''titulo'' \<mapsto> t, ''tipo'' \<mapsto> JStr tipo,
                ''mensaje'' \<mapsto> JStr mensaje,
                ''imagen'' \<mapsto> (case imagen of None \<Rightarrow> JNull | Some i \<Rightarrow> i),
                ''createdAt'' \<mapsto> ts]
      | _ \<Rightarrow> None)"

definition guardarNotificacion_v1 ::
    "jsval option \<Rightarrow> jsval option \<Rightarrow> string \<Rightarrow> string \<Rightarrow> jsval option \<Rightarrow> unit action" where
  "guardarNotificacion_v1 uid titulo tipo mensaje imagen =
     seq serverTimestamp (\<lambda>ts.
       case notification_doc uid titulo tipo mensaje imagen ts of
         None \<Rightarrow> throw OtherError
       | Some d \<Rightarrow> seq (add_doc ''Notificaciones'' d) (\<lambda>r. ret ()))"

text \<open>\<^verbatim>\<open>guardarNotificacion\<close> as revised (lines 501 to 514): every failure is
  logged and swallowed.\<close>

definition guardarNotificacion ::
    "jsval option \<Rightarrow> jsval option \<Rightarrow> string \<Rightarrow> string \<Rightarrow> jsval option \<Rightarrow> unit action" where
  "guardarNotificacion uid titulo tipo mensaje imagen =
     try_catch
       (seq serverTimestamp (\<lambda>ts.
          case notification_doc uid titulo tipo mensaje imagen ts of
            None \<Rightarrow> throw OtherError
          | Some d \<Rightarrow> seq (add_doc ''Notificaciones'' d) (\<lambda>r. ret ())))
       (\<lambda>e. ret ())"

text \<open>\<^verbatim>\<open>validarTipo\<close> (lines 516 to 522).\<close>

definition validarTipo :: "jsval option \<Rightarrow> string \<Rightarrow> string \<Rightarrow> unit action" where
  "validarTipo valor tipo nombreCampo =
     (if tipo = ''array''
      then (if \<not> isArray valor then throw (HttpsError InvalidArgument) else ret ())
      else if typeof valor \<noteq> tipo then throw (HttpsError InvalidArgument)
      else ret ())"

text \<open>The two \<^verbatim>\<open>catch\<close> clauses of the revised handlers:
  \<^verbatim>\<open>throw new HttpsError(error.code || 'internal', error.message)\<close> and
  \<^verbatim>\<open>throw new HttpsError('internal', error.message)\<close>. In the first, the numeric
  code of a store failure is not a code \<^verbatim>\<open>HttpsError\<close> knows: its constructor throws
  a plain error instead.\<close>

definition rethrow_code :: "exn \<Rightarrow> 'a action" where
  "rethrow_code e =
     (case e of
        HttpsError c \<Rightarrow> throw (HttpsError c)
      | StoreError \<Rightarrow> throw OtherError
      | OtherError \<Rightarrow> throw (HttpsError Internal))"

definition rethrow_internal :: "exn \<Rightarrow> 'a action" where
  "rethrow_internal e = throw (HttpsError Internal)"

text \<open>\<^verbatim>\<open>devices.docs.map(d => d.data().token_fcm).filter(t => t)\<close>.\<close>

definition tokens_of :: "doc list \<Rightarrow> jsval list" where
  "tokens_of devices =
     List.map_filter (\<lambda>d. if truthy (snd d ''token_fcm'') then snd d ''token_fcm'' else None)
       devices"

section \<open>Appointments\<close>

text \<open>A handler receives the payload \<^verbatim>\<open>data\<close> and the caller: \<open>auth\<close> is the
  \<^verbatim>\<open>uid\<close> of \<^verbatim>\<open>context.auth\<close>, or \<open>None\<close> when there is no \<^verbatim>\<open>context.auth\<close>.\<close>

text \<open>The object \<^verbatim>\<open>nuevaCita\<close> that \<^verbatim>\<open>crearCita\<close> stores: the payload, then the
  fields the server sets (a later field replaces an earlier one of the same name). The
  first version keeps the payload's \<^verbatim>\<open>fecha\<close>; the revised one stores the parsed date.\<close>

definition nuevaCita_v1 :: "obj \<Rightarrow> string \<Rightarrow> jsval \<Rightarrow> obj" where
  "nuevaCita_v1 data uid ts =
     data(''uid_cliente'' \<mapsto> JStr uid,
          ''estado_solicitud'' \<mapsto> JStr ''espera'',
          ''estado_atendida'' \<mapsto> JStr ''espera'',
          ''createdAt'' \<mapsto> ts,
          ''updatedAt'' \<mapsto> ts)"

definition nuevaCita :: "obj \<Rightarrow> string \<Rightarrow> jsval \<Rightarrow> jsval \<Rightarrow> obj" where
  "nuevaCita data uid fecha ts =
     data(''uid_cliente'' \<mapsto> JStr uid,
          ''fecha'' \<mapsto> fecha,
          ''estado_solicitud'' \<mapsto> JStr ''espera'',
          ''estado_atendida'' \<mapsto> JStr ''espera'',
          ''createdAt'' \<mapsto> ts,
          ''updatedAt'' \<mapsto> ts)"

text \<open>\<^verbatim>\<open>crearCita\<close> as first written (lines 125 to 163).\<close>

definition crearCita_v1 :: "obj \<Rightarrow> string option \<Rightarrow> string action" where
  "crearCita_v1 data auth =
     (case auth of
        None \<Rightarrow> throw (HttpsError Unauthenticated)
      | Some uid \<Rightarrow>
          seq (get_world (\<lambda>w. new_Date w (data ''fecha''))) (\<lambda>fechaCita.
          seq (get_world (\<lambda>w. subMonths (tz w) (clock w) 1)) (\<lambda>unMesAtras.
          seq (query ''Citas''
                 [Eq ''uid_cliente'' (Some (JStr uid)),
                  Eq ''estado_solicitud'' (Some (JStr ''rechazada'')),
                  Ge ''createdAt'' (Some unMesAtras)]) (\<lambda>rechazosSnap.
          if 2 \<le> length rechazosSnap then throw (HttpsError FailedPrecondition)
          else
          seq (get_world (\<lambda>w. startOfDay (tz w) fechaCita)) (\<lambda>inicioDia.
          seq (get_world (\<lambda>w. endOfDay (tz w) fechaCita)) (\<lambda>finDia.
          seq (query ''Citas''
                 [Eq ''uid_cliente'' (Some (JStr uid)),
                  Ge ''fecha'' inicioDia,
                  Le ''fecha'' finDia]) (\<lambda>citasHoySnap.
          if citasHoySnap \<noteq> [] then throw (HttpsError AlreadyExists)
          else
          seq serverTimestamp (\<lambda>ts.
          add_doc ''Citas'' (nuevaCita_v1 data uid ts)))))))))"

text \<open>\<^verbatim>\<open>crearCita\<close> as revised (lines 641 to 688).\<close>

definition crearCita :: "obj \<Rightarrow> string option \<Rightarrow> string action" where
  "crearCita data auth =
     try_catch
       (case auth of
          None \<Rightarrow> throw (HttpsError Unauthenticated)
        | Some uid \<Rightarrow>
            seq (validarTipo (data ''fecha'') ''string'' ''fecha'') (\<lambda>u.
            seq (get_world (\<lambda>w. new_Date w (data ''fecha''))) (\<lambda>fechaCita.
            seq (get_world (\<lambda>w. subMonths (tz w) (clock w) 1)) (\<lambda>unMesAtras.
            seq (query ''Citas''
                   [Eq ''uid_cliente'' (Some (JStr uid)),
                    Eq ''estado_solicitud'' (Some (JStr ''rechazada'')),
                    Ge ''createdAt'' (Some unMesAtras)]) (\<lambda>rechazosSnap.
            if 2 \<le> length rechazosSnap then throw (HttpsError FailedPrecondition)
            else
            seq (get_world (\<lambda>w. startOfDay (tz w) fechaCita)) (\<lambda>inicioDia.
            seq (get_world (\<lambda>w. endOfDay (tz w) fechaCita)) (\<lambda>finDia.
            seq (query ''Citas''
                   [Eq ''uid_cliente'' (Some (JStr uid)),
                    Ge ''fecha'' inicioDia,
                    Le ''fecha'' finDia]) (\<lambda>citasHoySnap.
            if citasHoySnap \<noteq> [] then throw (HttpsError AlreadyExists)
            else
            seq (fromDate fechaCita) (\<lambda>fecha.
            seq serverTimestamp (\<lambda>ts.
            add_doc ''Citas'' (nuevaCita data uid fecha ts)))))))))))
       rethrow_code"

text \<open>\<^verbatim>\<open>actualizarCita\<close> as first written (lines 165 to 195). \<^verbatim>\<open>campos\<close> is the
  payload without \<^verbatim>\<open>id\<close>; reading \<^verbatim>\<open>context.auth.uid\<close> without a
  \<^verbatim>\<open>context.auth\<close> is a \<^verbatim>\<open>TypeError\<close>.\<close>

definition actualizarCita_v1 :: "obj \<Rightarrow> string option \<Rightarrow> unit action" where
  "actualizarCita_v1 data auth =
     (let campos = data(''id'' := None) in
      case auth of
        None \<Rightarrow> throw OtherError
      | Some uid \<Rightarrow>
          seq (esAdministrador_v1 (Some uid)) (\<lambda>isAdmin.
          seq (get_doc ''Citas'' (data ''id'')) (\<lambda>(i, citaSnap).
          case citaSnap of
            None \<Rightarrow> throw (HttpsError NotFound)
          | Some citaData \<Rightarrow>
              if isAdmin
              then seq serverTimestamp (\<lambda>ts.
                     update_doc ''Citas'' i (campos(''updatedAt'' \<mapsto> ts)))
              else if \<not> strict_eq (citaData ''uid_cliente'') (Some (JStr uid))
              then throw (HttpsError PermissionDenied)
              else if card (dom campos) = 1 \<and>
                      strict_eq (campos ''estado_solicitud'') (Some (JStr ''rechazada''))
              then seq serverTimestamp (\<lambda>ts.
                     update_doc ''Citas'' i
                       [''estado_solicitud'' \<mapsto> JStr ''rechazada'', ''updatedAt'' \<mapsto> ts])
              else throw (HttpsError PermissionDenied))))"

text \<open>\<^verbatim>\<open>actualizarCita\<close> as revised (lines 690 to 726).\<close>

definition actualizarCita :: "obj \<Rightarrow> string option \<Rightarrow> unit action" where
  "actualizarCita data auth =
     try_catch
       (let campos = data(''id'' := None) in
        case auth of
          None \<Rightarrow> throw OtherError
        | Some uid \<Rightarrow>
            if \<not> truthy (Some (JStr uid)) then throw (HttpsError Unauthenticated)
            else
            seq (esAdministrador (Some uid)) (\<lambda>isAdmin.
            seq (get_doc ''Citas'' (data ''id'')) (\<lambda>(i, citaSnap).
            case citaSnap of
              None \<Rightarrow> throw (HttpsError NotFound)
            | Some citaData \<Rightarrow>
                if isAdmin
                then seq serverTimestamp (\<lambda>ts.
                       update_doc ''Citas'' i (campos(''updatedAt'' \<mapsto> ts)))
                else if \<not> strict_eq (citaData ''uid_cliente'') (Some (JStr uid))
                then throw (HttpsError PermissionDenied)
                else if card (dom campos) = 1 \<and>
                        strict_eq (campos ''estado_solicitud'') (Some (JStr ''rechazada''))
                then seq serverTimestamp (\<lambda>ts.
                       update_doc ''Citas'' i
                         [''estado_solicitud'' \<mapsto> JStr ''rechazada'', ''updatedAt'' \<mapsto> ts])
                else throw (HttpsError PermissionDenied))))
       rethrow_internal"

text \<open>\<^verbatim>\<open>consultarCitas\<close> as revised (lines 728 to 764); the query of the first
  version (lines 197 to 228) is the same. The query is built first (each
  \<^verbatim>\<open>where\<close>, \<^verbatim>\<open>limit\<close> and \<^verbatim>\<open>startAfter\<close> checks its argument), then run:
  the matching documents that have the ordering field, in its order and then by
  identifier, after the cursor, cut at the limit. Arrays and maps are left in stored
  order among themselves.\<close>

fun order_key :: "jsval \<Rightarrow> nat \<times> int \<times> string" where
  "order_key JNull = (0, 0, [])"
| "order_key (JBool b) = (1, (if b then 1 else 0), [])"
| "order_key (JNum n) = (2, n, [])"
| "order_key (JTimestamp t) = (3, t, [])"
| "order_key (JStr s) = (4, 0, s)"
| "order_key (JArr xs) = (5, 0, [])"
| "order_key (JObj kvs) = (6, 0, [])"

definition doc_key :: "string \<Rightarrow> doc \<Rightarrow> (nat \<times> int \<times> string) \<times> string" where
  "doc_key f d = ((case snd d f of None \<Rightarrow> (0, 0, []) | Some v \<Rightarrow> order_key v), fst d)"

definition orderBy :: "string \<Rightarrow> doc list \<Rightarrow> doc list" where
  "orderBy f ds = sort_key (doc_key f) (filter (\<lambda>d. snd d f \<noteq> None) ds)"

definition startAfter :: "string \<Rightarrow> doc option \<Rightarrow> doc list \<Rightarrow> doc list" where
  "startAfter f cursor ds =
     (case cursor of None \<Rightarrow> ds | Some c \<Rightarrow> filter (\<lambda>d. doc_key f c < doc_key f d) ds)"

definition limit_to :: "nat option \<Rightarrow> doc list \<Rightarrow> doc list" where
  "limit_to lim ds = (case lim of None \<Rightarrow> ds | Some n \<Rightarrow> take n ds)"

definition check_conds :: "cond list \<Rightarrow> unit action" where
  "check_conds cs = (if list_all cond_ok cs then ret () else throw OtherError)"

definition run_query ::
    "string \<Rightarrow> cond list \<Rightarrow> string \<Rightarrow> nat option \<Rightarrow> doc option \<Rightarrow> doc list action" where
  "run_query c cs f lim cursor w =
     (if c \<in> set (down w) then (Inl StoreError, log (Query c cs) w)
      else (Inr (limit_to lim (startAfter f cursor (orderBy f (matching cs (store w c))))),
            log (Query c cs) w))"

text \<open>\<^verbatim>\<open>limit = 20\<close> when the payload has none; \<^verbatim>\<open>if (limit) query.limit(limit)\<close>
  needs a positive integer.\<close>

definition limit_of :: "jsval option \<Rightarrow> nat option action" where
  "limit_of v =
     (case v of
        None \<Rightarrow> ret (Some 20)
      | Some (JNum n) \<Rightarrow>
          if n = 0 then ret None else if 0 < n then ret (Some (nat n)) else throw OtherError
      | Some x \<Rightarrow> if truthy (Some x) then throw OtherError else ret None)"

definition consultarCitas :: "obj \<Rightarrow> string option \<Rightarrow> obj list action" where
  "consultarCitas data auth =
     try_catch
       (case auth of
          None \<Rightarrow> throw OtherError
        | Some uid \<Rightarrow>
            if \<not> truthy (Some (JStr uid)) then throw (HttpsError Unauthenticated)
            else
            seq (esAdministrador (Some uid)) (\<lambda>isAdmin.
            seq (if isAdmin
                 then (if truthy (data ''fecha'')
                       then get_world (\<lambda>w.
                              [Ge ''fecha'' (startOfDay (tz w) (new_Date w (data ''fecha''))),
                               Le ''fecha'' (endOfDay (tz w) (new_Date w (data ''fecha'')))])
                       else if truthy (data ''uid_cliente_consulta'')
                       then ret [Eq ''uid_cliente'' (data ''uid_cliente_consulta'')]
                       else ret [])
                 else ret [Eq ''uid_cliente'' (Some (JStr uid)),
                           Neq ''estado_solicitud'' (JStr ''rechazada'')]) (\<lambda>conds.
            seq (check_conds conds) (\<lambda>u.
            seq (limit_of (data ''limit'')) (\<lambda>lim.
            seq (if truthy (data ''lastDocId'')
                 then seq (get_doc ''Citas'' (data ''lastDocId'')) (\<lambda>(i, lastDoc).
                        case lastDoc of
                          None \<Rightarrow> ret None
                        | Some d \<Rightarrow>
                            if d ''fecha'' = None then throw OtherError else ret (Some (i, d)))
                 else ret None) (\<lambda>cursor.
            seq (run_query ''Citas'' conds ''fecha'' lim cursor) (\<lambda>snap.
            ret (map (\<lambda>d. [''id'' \<mapsto> JStr (fst d)] ++ snd d) snap))))))))
       rethrow_internal"

section \<open>Notifications\<close>

text \<open>\<^verbatim>\<open>notificarCambioCita\<close> as revised (lines 905 to 943), on the snapshots before
  and after an update. The first version (lines 337 to 376) differs only in taking
  \<^verbatim>\<open>escenario_nombre\<close> as the title without the default \<^verbatim>\<open>"Cita"\<close>.\<close>

definition notificarCambioCita :: "obj \<Rightarrow> obj \<Rightarrow> unit action" where
  "notificarCambioCita oldData newData =
     (if strict_eq (newData ''estado_solicitud'') (oldData ''estado_solicitud'') then ret ()
      else
        let uid = newData ''uid_cliente'';
            titulo = or_else (newData ''escenario_nombre'') (Some (JStr ''Cita''))
        in
        seq (get_world (\<lambda>w.
               if strict_eq (newData ''estado_solicitud'') (Some (JStr ''aceptada''))
               then Some (''Tu cita para '' @ text_of w titulo @ '' ha sido confirmada.'')
               else if strict_eq (newData ''estado_solicitud'') (Some (JStr ''rechazada''))
               then Some (''Tu cita para '' @ text_of w titulo @ '' ha sido rechazada.'')
               else None)) (\<lambda>mensaje.
        case mensaje of
          None \<Rightarrow> ret ()
        | Some m \<Rightarrow>
            let imagen = newData ''escenario_img_principal'' in
            seq (guardarNotificacion uid titulo str_Confirmacion m imagen) (\<lambda>u.
            seq (query ''Dispositivos''
                   [Eq ''uid_usuario'' uid, Eq ''activo'' (Some (JBool True))]) (\<lambda>devices.
            let tokens = tokens_of devices in
            if 0 < length tokens
            then sendEachForMulticast tokens
                   \<lparr>title = titulo, body = m, image = or_else imagen (Some (JStr []))\<rparr>
            else ret ()))))"

text \<open>\<^verbatim>\<open>notificarNuevoEscenario\<close> as revised (lines 945 to 969). The loop
  \<^verbatim>\<open>for (let i = 0; i < tokens.length; i += batchSize)\<close> awaits each batch.\<close>

function send_batches :: "jsval list \<Rightarrow> notification \<Rightarrow> nat \<Rightarrow> unit action" where
  "send_batches tokens payload i w =
     (if i < length tokens
      then (case sendEachForMulticast (take 500 (drop i tokens)) payload w of
              (Inl e, w') \<Rightarrow> (Inl e, w')
            | (Inr u, w') \<Rightarrow> send_batches tokens payload (i + 500) w')
      else (Inr (), w))"
  by pat_completeness auto
termination
  by (relation "measure (\<lambda>(tokens, payload, i, w). length tokens - i)") auto

declare send_batches.simps [simp del]

definition notificarNuevoEscenario :: "obj \<Rightarrow> unit action" where
  "notificarNuevoEscenario escenario =
     seq (query ''Dispositivos'' [Eq ''activo'' (Some (JBool True))]) (\<lambda>devices.
     let tokens = tokens_of devices in
     seq (get_world (\<lambda>w.
            \<lparr>title = Some (JStr str_Nuevo_Escenario),
             body = ''Ven a conocer '' @ [CHR 0x22] @ text_of w (escenario ''nombre'') @ [CHR 0x22],
             image = or_else (escenario ''img_principal'') (Some (JStr []))\<rparr>)) (\<lambda>payload.
     send_batches tokens payload 0))"

text \<open>\<^verbatim>\<open>notificarFotosListas\<close> as revised (lines 971 to 994).\<close>

definition notificarFotosListas :: "obj \<Rightarrow> obj \<Rightarrow> unit action" where
  "notificarFotosListas oldData newData =
     (if strict_eq (newData ''estado'') (Some (JStr ''entregado'')) \<and>
         \<not> strict_eq (oldData ''estado'') (Some (JStr ''entregado''))
      then
        let uid = newData ''uid_cliente'' in
        seq (guardarNotificacion uid (Some (JStr ''Fotos Listas'')) ''Info'' str_Fotos None) (\<lambda>u.
        seq (query ''Dispositivos'' [Eq ''uid_usuario'' uid]) (\<lambda>devices.
        let tokens = tokens_of devices in
        if 0 < length tokens
        then sendEachForMulticast tokens
               \<lparr>title = Some (JStr ''Fotos Listas''), body = str_Fotos, image = None\<rparr>
        else ret ()))
      else ret ())"

section \<open>Reminder sweep\<close>

text \<open>\<^verbatim>\<open>recordatorioDiario\<close> as revised (lines 996 to 1030): the body of the loop
  over the selected appointments, the loop, and the handler. The first version (lines
  433 to 472) collects \<^verbatim>\<open>{uid, escenario}\<close> objects in a \<^verbatim>\<open>Set\<close>, which never
  merges two objects, and runs the same body over them.\<close>

definition recordar_cita :: "obj \<Rightarrow> unit action" where
  "recordar_cita cita =
     (let uid = cita ''uid_cliente'';
          escenario = cita ''escenario_nombre''
      in
      seq (query ''Dispositivos'' [Eq ''uid_usuario'' uid]) (\<lambda>devices.
      let tokens = tokens_of devices in
      if 0 < length tokens
      then
        seq (get_world (\<lambda>w. str_Recuerda @ text_of w escenario)) (\<lambda>bodyMsg.
        seq (sendEachForMulticast tokens
               \<lparr>title = Some (JStr ''Recordatorio de Cita''), body = bodyMsg, image = None\<rparr>) (\<lambda>u.
        guardarNotificacion uid (Some (JStr ''Recordatorio'')) ''recordatorio'' bodyMsg None))
      else ret ()))"

fun recordar_citas :: "doc list \<Rightarrow> unit action" where
  "recordar_citas [] w = (Inr (), w)"
| "recordar_citas (d # ds) w =
     (case recordar_cita (snd d) w of
        (Inl e, w') \<Rightarrow> (Inl e, w')
      | (Inr u, w') \<Rightarrow> recordar_citas ds w')"

definition recordatorioDiario :: "unit action" where
  "recordatorioDiario =
     seq (get_world (\<lambda>w. startOfDay (tz w) (Some (clock w)))) (\<lambda>hoy.
     seq (get_world (\<lambda>w. endOfDay (tz w) (addDays hoy 2))) (\<lambda>limite.
     seq (query ''Citas''
            [Ge ''fecha'' hoy, Le ''fecha'' limite,
             Eq ''estado_solicitud'' (Some (JStr ''aceptada''))]) (\<lambda>citasSnap.
     recordar_citas citasSnap)))"

section \<open>Vocabulary of the statements\<close>

text \<open>The two queries of \<^verbatim>\<open>crearCita\<close>, as conditions.\<close>

definition gate1 :: "world \<Rightarrow> string \<Rightarrow> cond list" where
  "gate1 w uid =
     [Eq ''uid_cliente'' (Some (JStr uid)),
      Eq ''estado_solicitud'' (Some (JStr ''rechazada'')),
      Ge ''createdAt'' (Some (subMonths (tz w) (clock w) 1))]"

definition gate2 :: "world \<Rightarrow> string \<Rightarrow> int option \<Rightarrow> cond list" where
  "gate2 w uid fechaCita =
     [Eq ''uid_cliente'' (Some (JStr uid)),
      Ge ''fecha'' (startOfDay (tz w) fechaCita),
      Le ''fecha'' (endOfDay (tz w) fechaCita)]"

text \<open>The caller's rejected appointments created at or after an instant.\<close>

definition rejections_from :: "world \<Rightarrow> string \<Rightarrow> int \<Rightarrow> doc list" where
  "rejections_from w uid t0 =
     filter (\<lambda>d. snd d ''uid_cliente'' = Some (JStr uid) \<and>
                 snd d ''estado_solicitud'' = Some (JStr ''rechazada'') \<and>
                 (case snd d ''createdAt'' of Some (JTimestamp t) \<Rightarrow> t0 \<le> t | _ \<Rightarrow> False))
       (store w ''Citas'')"

text \<open>The specification's words for the same gate: the caller's rejected appointments
  created within the trailing 30 days, the instant 30 days ago excluded.\<close>

definition rejections_30_days :: "world \<Rightarrow> string \<Rightarrow> doc list" where
  "rejections_30_days w uid =
     filter (\<lambda>d. snd d ''uid_cliente'' = Some (JStr uid) \<and>
                 snd d ''estado_solicitud'' = Some (JStr ''rechazada'') \<and>
                 (case snd d ''createdAt'' of
                    Some (JTimestamp t) \<Rightarrow> clock w - 30 * 86400000 < t \<and> t \<le> clock w
                  | _ \<Rightarrow> False))
       (store w ''Citas'')"

text \<open>What the day query of \<^verbatim>\<open>crearCita\<close> matches: the caller's appointments, of
  any status, whose \<^verbatim>\<open>fecha\<close> is a stored timestamp within the local day of a date.
  An appointment whose \<^verbatim>\<open>fecha\<close> is stored as a string is never among them.\<close>

definition stamped_same_day :: "world \<Rightarrow> string \<Rightarrow> int option \<Rightarrow> doc list" where
  "stamped_same_day w uid fechaCita =
     filter (\<lambda>d. snd d ''uid_cliente'' = Some (JStr uid) \<and>
                 (case startOfDay (tz w) fechaCita of
                    None \<Rightarrow> False
                  | Some a \<Rightarrow>
                      (case endOfDay (tz w) fechaCita of
                         None \<Rightarrow> False
                       | Some b \<Rightarrow>
                           (case snd d ''fecha'' of
                              Some (JTimestamp t) \<Rightarrow> a \<le> t \<and> t \<le> b
                            | _ \<Rightarrow> False))))
       (store w ''Citas'')"

text \<open>The specification's words for the same gate: the caller's appointments, of any
  status, whose date falls within the local day of a date. The date of an appointment is
  the instant its \<^verbatim>\<open>fecha\<close> denotes, be it stored as a timestamp or as a string
  that the runtime parses.\<close>

definition date_of :: "world \<Rightarrow> obj \<Rightarrow> int option" where
  "date_of w d =
     (case d ''fecha'' of
        Some (JTimestamp t) \<Rightarrow> Some t
      | Some (JStr s) \<Rightarrow> date_parse w s
      | _ \<Rightarrow> None)"

definition dated_same_day :: "world \<Rightarrow> string \<Rightarrow> int option \<Rightarrow> doc list" where
  "dated_same_day w uid fechaCita =
     filter (\<lambda>d. snd d ''uid_cliente'' = Some (JStr uid) \<and>
                 (case startOfDay (tz w) fechaCita of
                    None \<Rightarrow> False
                  | Some a \<Rightarrow>
                      (case endOfDay (tz w) fechaCita of
                         None \<Rightarrow> False
                       | Some b \<Rightarrow>
                           (case date_of w (snd d) of
                              Some t \<Rightarrow> a \<le> t \<and> t \<le> b
                            | None \<Rightarrow> False))))
       (store w ''Citas'')"

text \<open>The clock shows a date whose month before the store can hold, and the day of a
  requested date has bounds the store can hold.\<close>

definition clock_ok :: "world \<Rightarrow> bool" where
  "clock_ok w = storable_date (Some (subMonths (tz w) (clock w) 1))"

definition day_ok :: "world \<Rightarrow> int option \<Rightarrow> bool" where
  "day_ok w fechaCita =
     (storable_date (startOfDay (tz w) fechaCita) \<and> storable_date (endOfDay (tz w) fechaCita))"

text \<open>The answer of the revised \<^verbatim>\<open>esAdministrador\<close> for a caller.\<close>

definition is_admin :: "world \<Rightarrow> string \<Rightarrow> bool" where
  "is_admin w u = (u \<noteq> [] \<and> ''Admin'' \<notin> set (down w) \<and> admin_records w u \<noteq> [])"

definition admin_query :: "string \<Rightarrow> event" where
  "admin_query u = Query ''Admin'' [Eq ''uidClient'' (Some (JStr u))]"

text \<open>The token lists of the gateway calls in a trace.\<close>

definition multicasts :: "event list \<Rightarrow> jsval list list" where
  "multicasts es =
     List.map_filter (\<lambda>e. case e of Multicast ts n \<Rightarrow> Some ts | _ \<Rightarrow> None) es"

text \<open>The title \<^verbatim>\<open>newData.escenario_nombre || "Cita"\<close> and the sentence built on it.\<close>

definition titulo_cita :: "obj \<Rightarrow> jsval" where
  "titulo_cita newData =
     (case newData ''escenario_nombre'' of
        None \<Rightarrow> JStr ''Cita''
      | Some v \<Rightarrow> if truthy (Some v) then v else JStr ''Cita'')"

definition mensaje_cita :: "world \<Rightarrow> obj \<Rightarrow> string" where
  "mensaje_cita w newData =
     ''Tu cita para '' @ text_of w (Some (titulo_cita newData)) @
     (if newData ''estado_solicitud'' = Some (JStr ''aceptada'')
      then '' ha sido confirmada.'' else '' ha sido rechazada.'')"

text \<open>The active devices of a user, and all devices of a user.\<close>

definition active_devices :: "world \<Rightarrow> jsval \<Rightarrow> doc list" where
  "active_devices w u =
     filter (\<lambda>d. snd d ''uid_usuario'' = Some u \<and> snd d ''activo'' = Some (JBool True))
       (store w ''Dispositivos'')"

definition user_devices :: "world \<Rightarrow> jsval \<Rightarrow> doc list" where
  "user_devices w u = filter (\<lambda>d. snd d ''uid_usuario'' = Some u) (store w ''Dispositivos'')"

text \<open>The appointments the reminder sweep selects: dated from the start of the local
  day of the clock to the end of the local day two days later, and accepted.\<close>

definition sweep_query :: "world \<Rightarrow> cond list" where
  "sweep_query w =
     [Ge ''fecha'' (startOfDay (tz w) (Some (clock w))),
      Le ''fecha'' (endOfDay (tz w) (addDays (startOfDay (tz w) (Some (clock w))) 2)),
      Eq ''estado_solicitud'' (Some (JStr ''aceptada''))]"

definition upcoming :: "world \<Rightarrow> doc list" where
  "upcoming w =
     filter (\<lambda>d. snd d ''estado_solicitud'' = Some (JStr ''aceptada'') \<and>
                 (case startOfDay (tz w) (Some (clock w)) of
                    None \<Rightarrow> False
                  | Some a \<Rightarrow>
                      (case endOfDay (tz w) (addDays (Some a) 2) of
                         None \<Rightarrow> False
                       | Some b \<Rightarrow>
                           (case snd d ''fecha'' of
                              Some (JTimestamp t) \<Rightarrow> a \<le> t \<and> t \<le> b
                            | _ \<Rightarrow> False))))
       (store w ''Citas'')"

section \<open>Example worlds\<close>

text \<open>The clock of the examples shows 2023-03-15T12:00:00Z in a process on UTC; the
  runtime parses the one date string the examples use.\<close>

definition ex_parse :: "string \<Rightarrow> int option" where
  "ex_parse s = (if s = ''2023-03-20T10:00:00Z'' then Some 1679306400000 else None)"

definition ex_world :: "doc list \<Rightarrow> doc list \<Rightarrow> doc list \<Rightarrow> world" where
  "ex_world admins citas devices =
     \<lparr>store = (\<lambda>c. if c = ''Admin'' then admins
                    else if c = ''Citas'' then citas
                    else if c = ''Dispositivos'' then devices
                    else []),
      down = [], clock = 1678881600000, tz = 0,
      issued = 0, fresh = (\<lambda>n. ''auto'' @ replicate n (CHR ''x'')), date_parse = ex_parse,
      to_text = (\<lambda>v. ''[object Object]''), trace = []\<rparr>"

definition ex_cita :: "string \<Rightarrow> string \<Rightarrow> string \<Rightarrow> int \<Rightarrow> int \<Rightarrow> doc" where
  "ex_cita i uid estado fecha created =
     (i, [''uid_cliente'' \<mapsto> JStr uid, ''estado_solicitud'' \<mapsto> JStr estado,
          ''fecha'' \<mapsto> JTimestamp fecha, ''createdAt'' \<mapsto> JTimestamp created,
          ''escenario_nombre'' \<mapsto> JStr ''Estudio''])"

definition ex_admin :: "string \<Rightarrow> string \<Rightarrow> doc" where
  "ex_admin i uid = (i, [''uidClient'' \<mapsto> JStr uid])"

definition ex_device :: "string \<Rightarrow> string \<Rightarrow> bool \<Rightarrow> string \<Rightarrow> doc" where
  "ex_device i uid activo token =
     (i, [''uid_usuario'' \<mapsto> JStr uid, ''activo'' \<mapsto> JBool activo,
          ''token_fcm'' \<mapsto> JStr token, ''plataforma'' \<mapsto> JStr ''android''])"

text \<open>Ana has two rejected appointments, created 10 and 20 days ago.\<close>

definition w_blocked :: world where
  "w_blocked =
     ex_world []
       [ex_cita ''r1'' ''ana'' ''rechazada'' 1678000000000 1678017600000,
        ex_cita ''r2'' ''ana'' ''rechazada'' 1677000000000 1677153600000] []"

text \<open>Ana has two rejected appointments, both created 29 days ago, on 2023-02-14.\<close>

definition w_29_days :: world where
  "w_29_days =
     ex_world []
       [ex_cita ''r1'' ''ana'' ''rechazada'' 1676500000000 1676376000000,
        ex_cita ''r2'' ''ana'' ''rechazada'' 1676600000000 1676376000000] []"

text \<open>Ana has one appointment, rejected, dated 2023-03-20T18:00:00Z.\<close>

definition w_same_day :: world where
  "w_same_day = ex_world [] [ex_cita ''c1'' ''ana'' ''rechazada'' 1679335200000 1678795200000] []"

text \<open>No appointments at all.\<close>

definition w_empty :: world where
  "w_empty = ex_world [] [] []"

text \<open>A payload for 2023-03-20T10:00:00Z that also tries to set the owner and the
  status, and one whose date does not parse.\<close>

definition data_ok :: obj where
  "data_ok =
     [''fecha'' \<mapsto> JStr ''2023-03-20T10:00:00Z'', ''uid_cliente'' \<mapsto> JStr ''mallory'',
      ''estado_solicitud'' \<mapsto> JStr ''aceptada'', ''escenario_nombre'' \<mapsto> JStr ''Estudio'']"

definition data_hola :: obj where
  "data_hola = [''fecha'' \<mapsto> JStr ''hola'']"

text \<open>Root is an administrator; Ana owns the waiting appointment \<^verbatim>\<open>c1\<close>.\<close>

definition w_citas :: world where
  "w_citas =
     ex_world [ex_admin ''a1'' ''root'']
       [ex_cita ''c1'' ''ana'' ''espera'' 1679335200000 1678795200000] []"

definition data_cancel :: obj where
  "data_cancel = [''id'' \<mapsto> JStr ''c1'', ''estado_solicitud'' \<mapsto> JStr ''rechazada'']"

definition data_accept :: obj where
  "data_accept = [''id'' \<mapsto> JStr ''c1'', ''estado_solicitud'' \<mapsto> JStr ''aceptada'']"

definition data_two :: obj where
  "data_two =
     [''id'' \<mapsto> JStr ''c1'', ''estado_solicitud'' \<mapsto> JStr ''rechazada'',
      ''estado_atendida'' \<mapsto> JStr ''atendida'']"

text \<open>Root is an administrator; Ana owns the waiting appointment \<^verbatim>\<open>c1\<close>, dated
  2023-03-22T18:00:00Z. Root moves it to 2023-03-20, the new date written as the string
  the application sends, and \<open>w_moved\<close> is the world after that update.\<close>

definition w_before_move :: world where
  "w_before_move =
     ex_world [ex_admin ''a1'' ''root'']
       [ex_cita ''c1'' ''ana'' ''espera'' 1679508000000 1678795200000] []"

definition data_move :: obj where
  "data_move = [''id'' \<mapsto> JStr ''c1'', ''fecha'' \<mapsto> JStr ''2023-03-20T10:00:00Z'']"

definition w_moved :: world where
  "w_moved = snd (actualizarCita data_move (Some ''root'') w_before_move)"

text \<open>Ana has two active devices and an inactive one; her appointment \<^verbatim>\<open>c1\<close> before
  and after being accepted, and after a change of date only.\<close>

definition w_devices :: world where
  "w_devices =
     ex_world [ex_admin ''a1'' ''root'']
       [ex_cita ''c1'' ''ana'' ''aceptada'' 1678968000000 1678795200000]
       [ex_device ''d1'' ''ana'' True ''t1'', ex_device ''d2'' ''ana'' True ''t2'',
        ex_device ''d3'' ''ana'' False ''t3'', ex_device ''d4'' ''eva'' True ''t4'']"

definition cita_espera :: obj where
  "cita_espera = snd (ex_cita ''c1'' ''ana'' ''espera'' 1678968000000 1678795200000)"

definition cita_aceptada :: obj where
  "cita_aceptada = snd (ex_cita ''c1'' ''ana'' ''aceptada'' 1678968000000 1678795200000)"

definition cita_movida :: obj where
  "cita_movida = snd (ex_cita ''c1'' ''ana'' ''espera'' 1679054400000 1678795200000)"

definition cita_atendida :: obj where
  "cita_atendida = snd (ex_cita ''c1'' ''ana'' ''atendida'' 1678968000000 1678795200000)"

text \<open>Ana with \<open>n\<close> active devices, each with its own token; her accepted appointment
  for the next day.\<close>

definition ex_devices :: "nat \<Rightarrow> doc list" where
  "ex_devices n =
     map (\<lambda>k. ex_device (''d'' @ replicate k (CHR ''x'')) ''ana'' True
                 (''t'' @ replicate k (CHR ''x''))) [0..<n]"

definition w_many :: world where
  "w_many =
     ex_world [] [ex_cita ''c1'' ''ana'' ''aceptada'' 1678968000000 1678795200000]
       (ex_devices 501)"

text \<open>Ana's only device is registered as inactive.\<close>

definition w_inactive :: world where
  "w_inactive =
     ex_world [] [ex_cita ''c1'' ''ana'' ''aceptada'' 1678968000000 1678795200000]
       [ex_device ''d3'' ''ana'' False ''t3'']"

text \<open>Ana and Eva have appointments; one of Ana's is rejected.\<close>

definition w_listing :: world where
  "w_listing =
     ex_world [ex_admin ''a1'' ''root'']
       [ex_cita ''c1'' ''ana'' ''espera'' 1679335200000 1678795200000,
        ex_cita ''c2'' ''ana'' ''rechazada'' 1679421600000 1678795200000,
        ex_cita ''c3'' ''eva'' ''aceptada'' 1679335200000 1678795200000] []"

text \<open>A request that asks for another client's appointments.\<close>

definition data_listing :: obj where
  "data_listing = [''uid_cliente_consulta'' \<mapsto> JStr ''eva'', ''limit'' \<mapsto> JNum 50]"

section \<open>Properties\<close>

lemma matching_Eq1: "matching [Eq f v] ds = filter (\<lambda>d. snd d f = v) ds"
  by (simp add: matching_def)

lemma esAdministrador_absent:
  "\<not> truthy (map_option JStr uid) \<Longrightarrow> esAdministrador uid w = (Inr False, w)"
  by (simp add: esAdministrador_def ret_def)

lemma esAdministrador_value:
  "fst (esAdministrador uid w) =
     Inr (case uid of None \<Rightarrow> False
          | Some u \<Rightarrow> u \<noteq> [] \<and> ''Admin'' \<notin> set (down w) \<and> admin_records w u \<noteq> [])"
  by (cases uid)
     (simp_all add: esAdministrador_def ret_def seq_def try_catch_def query_def
        admin_records_def matching_Eq1)

text \<open>
  C4. \<^verbatim>\<open>esAdministrador\<close> (revised) never throws. For an absent or empty identity it
  returns false and leaves the world as it was: no lookup is recorded. When the lookup of
  the \<^verbatim>\<open>Admin\<close> collection fails it returns false. When the lookup works it returns
  true exactly when at least one membership record carries the identity.
\<close>

theorem esAdministrador_fail_closed:
  "(\<not> truthy (map_option JStr uid) \<longrightarrow> esAdministrador uid w = (Inr False, w)) \<and>
   (''Admin'' \<in> set (down w) \<longrightarrow> fst (esAdministrador uid w) = Inr False) \<and>
   (uid = Some u \<and> u \<noteq> [] \<and> ''Admin'' \<notin> set (down w) \<longrightarrow>
      fst (esAdministrador uid w) = Inr (admin_records w u \<noteq> []))"
  using esAdministrador_absent [of uid w] esAdministrador_value [of uid w]
  by (auto split: option.splits)

subsection \<open>Creating an appointment\<close>

lemmas run_defs = ret_def throw_def seq_def try_catch_def get_world_def rethrow_code_def
  rethrow_internal_def check_conds_def serverTimestamp_def

lemma log_fields [simp]:
  "store (log e w) = store w" "down (log e w) = down w" "clock (log e w) = clock w"
  "tz (log e w) = tz w" "issued (log e w) = issued w" "fresh (log e w) = fresh w"
  "date_parse (log e w) = date_parse w" "to_text (log e w) = to_text w"
  "trace (log e w) = trace w @ [e]"
  by (simp_all add: log_def)

lemma typeof_string: "(typeof v = ''string'') = (\<exists>s. v = Some (JStr s))"
  by (cases v rule: typeof.cases) simp_all

lemma matching_gate1:
  "matching (gate1 w uid) (store w ''Citas'') =
     rejections_from w uid (subMonths (tz w) (clock w) 1)"
  by (simp add: matching_def gate1_def rejections_from_def)

lemma matching_gate2: "matching (gate2 w uid f) (store w ''Citas'') = stamped_same_day w uid f"
  unfolding matching_def gate2_def stamped_same_day_def
  by (rule filter_cong) (simp_all split: option.split jsval.split)

lemma crearCita_unauth: "crearCita data None w = (Inl (HttpsError Unauthenticated), w)"
  by (simp add: crearCita_def run_defs)

lemma crearCita_invalid:
  "typeof (data ''fecha'') \<noteq> ''string'' \<Longrightarrow>
   crearCita data (Some uid) w = (Inl (HttpsError InvalidArgument), w)"
  by (simp add: crearCita_def run_defs validarTipo_def)

text \<open>What \<^verbatim>\<open>crearCita\<close> does for an authenticated caller and a string date.\<close>

lemma crearCita_run:
  assumes "data ''fecha'' = Some (JStr s)"
  shows "crearCita data (Some uid) w =
     (let fechaCita = date_parse w s;
          w1 = log (Query ''Citas'' (gate1 w uid)) w;
          w2 = log (Query ''Citas'' (gate2 w uid fechaCita)) w1
      in
      if \<not> clock_ok w then (Inl (HttpsError Internal), w)
      else if ''Citas'' \<in> set (down w) then (Inl OtherError, w1)
      else if 2 \<le> length (rejections_from w uid (subMonths (tz w) (clock w) 1))
      then (Inl (HttpsError FailedPrecondition), w1)
      else if \<not> day_ok w fechaCita then (Inl (HttpsError Internal), w1)
      else if stamped_same_day w uid fechaCita \<noteq> [] then (Inl (HttpsError AlreadyExists), w2)
      else (case fechaCita of
              None \<Rightarrow> (Inl (HttpsError Internal), w2)
            | Some t \<Rightarrow>
                if \<not> storable_date (Some t) then (Inl (HttpsError Internal), w2)
                else (Inr (fresh w (issued w)),
                      log (Add ''Citas'' (fresh w (issued w)))
                        (w2\<lparr>store := (store w)(''Citas'' := store w ''Citas'' @
                               [(fresh w (issued w),
                                 nuevaCita data uid (JTimestamp t) (JTimestamp (clock w)))]),
                            issued := Suc (issued w)\<rparr>))))"
proof -
  have g1: "list_all cond_ok (gate1 w uid) = clock_ok w"
    by (simp add: gate1_def clock_ok_def)
  have g2: "list_all cond_ok (gate2 w uid f) = day_ok w f" for f
    by (simp add: gate2_def day_ok_def)
  have "crearCita data (Some uid) w =
     (let fechaCita = date_parse w s;
          w1 = log (Query ''Citas'' (gate1 w uid)) w;
          w2 = log (Query ''Citas'' (gate2 w uid fechaCita)) w1
      in
      if \<not> list_all cond_ok (gate1 w uid) then (Inl (HttpsError Internal), w)
      else if ''Citas'' \<in> set (down w) then (Inl OtherError, w1)
      else if 2 \<le> length (matching (gate1 w uid) (store w ''Citas''))
      then (Inl (HttpsError FailedPrecondition), w1)
      else if \<not> list_all cond_ok (gate2 w uid fechaCita) then (Inl (HttpsError Internal), w1)
      else if matching (gate2 w uid fechaCita) (store w ''Citas'') \<noteq> []
      then (Inl (HttpsError AlreadyExists), w2)
      else (case fechaCita of
              None \<Rightarrow> (Inl (HttpsError Internal), w2)
            | Some t \<Rightarrow>
                if \<not> storable_date (Some t) then (Inl (HttpsError Internal), w2)
                else (Inr (fresh w (issued w)),
                      log (Add ''Citas'' (fresh w (issued w)))
                        (w2\<lparr>store := (store w)(''Citas'' := store w ''Citas'' @
                               [(fresh w (issued w),
                                 nuevaCita data uid (JTimestamp t) (JTimestamp (clock w)))]),
                            issued := Suc (issued w)\<rparr>))))"
    using assms
    by (simp add: crearCita_def run_defs validarTipo_def new_Date_def query_def gate1_def
        gate2_def fromDate_def add_doc_def Let_def split: option.splits)
  then show ?thesis
    by (simp only: g1 g2 matching_gate1 matching_gate2)
qed

lemma ex_subMonths: "subMonths 0 1678881600000 1 = 1676462400000"
  by code_simp

lemma ex_world_fields [simp]:
  "store (ex_world a c d) ''Citas'' = c" "store (ex_world a c d) ''Admin'' = a"
  "store (ex_world a c d) ''Dispositivos'' = d" "store (ex_world a c d) ''Notificaciones'' = []"
  "down (ex_world a c d) = []"
  "clock (ex_world a c d) = 1678881600000" "tz (ex_world a c d) = 0"
  "issued (ex_world a c d) = 0" "fresh (ex_world a c d) 0 = ''auto''"
  "date_parse (ex_world a c d) = ex_parse" "trace (ex_world a c d) = []"
  by (simp_all add: ex_world_def)

lemma ex_clock_ok [simp]: "clock_ok (ex_world a c d)"
  by (simp add: clock_ok_def ex_subMonths storable_date_def)

lemma ex_day_ok [simp]: "day_ok (ex_world a c d) (Some 1679306400000)"
  by (simp add: day_ok_def startOfDay_def endOfDay_def time_clip_def storable_date_def)

lemma ex_startOfDay: "startOfDay 0 (Some 1679306400000) = Some 1679270400000"
  by (simp add: startOfDay_def time_clip_def)

lemma ex_endOfDay: "endOfDay 0 (Some 1679306400000) = Some 1679356799999"
  by (simp add: endOfDay_def time_clip_def)

text \<open>
  C2, as the code has it. For an authenticated caller whose payload carries a string
  \<^verbatim>\<open>fecha\<close>, with the store reachable: if at least two of the caller's appointments are
  rejected and were created at or after the instant one calendar month before now
  (\<^verbatim>\<open>subMonths(new Date(), 1)\<close>, bound included), the call fails with
  \<^verbatim>\<open>failed-precondition\<close> whatever the date; the only effect is the gate's own query,
  so no appointment is created.
\<close>

theorem crearCita_rejection_gate:
  assumes "data ''fecha'' = Some (JStr s)"
    and "''Citas'' \<notin> set (down w)"
    and "clock_ok w"
    and "2 \<le> length (rejections_from w uid (subMonths (tz w) (clock w) 1))"
  shows "crearCita data (Some uid) w =
           (Inl (HttpsError FailedPrecondition), log (Query ''Citas'' (gate1 w uid)) w) \<and>
         store (snd (crearCita data (Some uid) w)) = store w"
  using assms crearCita_run [of data s uid w] by simp

theorem crearCita_rejection_gate_witness:
  "crearCita data_ok (Some ''ana'') w_blocked =
     (Inl (HttpsError FailedPrecondition), log (Query ''Citas'' (gate1 w_blocked ''ana'')) w_blocked) \<and>
   store (snd (crearCita data_ok (Some ''ana'') w_blocked)) = store w_blocked"
proof -
  have 1: "data_ok ''fecha'' = Some (JStr ''2023-03-20T10:00:00Z'')"
    by (simp add: data_ok_def)
  have 2: "''Citas'' \<notin> set (down w_blocked)"
    by (simp add: w_blocked_def)
  have 3: "clock_ok w_blocked"
    by (simp add: w_blocked_def)
  have 4: "2 \<le> length (rejections_from w_blocked ''ana''
                (subMonths (tz w_blocked) (clock w_blocked) 1))"
    by (simp add: w_blocked_def rejections_from_def ex_subMonths ex_cita_def)
  show ?thesis
    by (rule crearCita_rejection_gate
        [where data = data_ok and s = "''2023-03-20T10:00:00Z''", OF 1 2 3 4])
qed

text \<open>The claim as the specification words it fails: on 2023-03-15 one calendar month
  back is 2023-02-15, 28 days ago. Two rejections created 29 days ago lie within the
  trailing 30 days, and yet the call succeeds and stores an appointment.\<close>

theorem crearCita_30_days_counterexample:
  "2 \<le> length (rejections_30_days w_29_days ''ana'') \<and>
   fst (crearCita data_ok (Some ''ana'') w_29_days) = Inr ''auto'' \<and>
   length (store (snd (crearCita data_ok (Some ''ana'') w_29_days)) ''Citas'') = 3"
proof -
  have 1: "data_ok ''fecha'' = Some (JStr ''2023-03-20T10:00:00Z'')"
    by (simp add: data_ok_def)
  have 2: "2 \<le> length (rejections_30_days w_29_days ''ana'')"
    by (simp add: w_29_days_def rejections_30_days_def ex_cita_def)
  have 3: "rejections_from w_29_days ''ana'' 1676462400000 = []"
    by (simp add: w_29_days_def rejections_from_def ex_cita_def)
  have 4: "stamped_same_day w_29_days ''ana'' (Some 1679306400000) = []"
    by (simp add: w_29_days_def stamped_same_day_def ex_cita_def ex_startOfDay ex_endOfDay)
  have 5: "crearCita data_ok (Some ''ana'') w_29_days =
      (Inr ''auto'',
       log (Add ''Citas'' ''auto'')
         (log (Query ''Citas'' (gate2 w_29_days ''ana'' (Some 1679306400000)))
            (log (Query ''Citas'' (gate1 w_29_days ''ana'')) w_29_days)
          \<lparr>store := (store w_29_days)(''Citas'' := store w_29_days ''Citas'' @
              [(''auto'', nuevaCita data_ok ''ana'' (JTimestamp 1679306400000)
                          (JTimestamp 1678881600000))]),
            issued := Suc 0\<rparr>))"
    using 3 4
    by (simp add: crearCita_run [where data = data_ok and s = "''2023-03-20T10:00:00Z''", OF 1]
        w_29_days_def ex_parse_def ex_subMonths storable_date_def)
  show ?thesis
    using 2 by (simp add: 5) (simp add: w_29_days_def)
qed

text \<open>
  The day gate on appointments dated by a stored timestamp. For an authenticated caller
  with a string \<^verbatim>\<open>fecha\<close>, the store reachable and fewer than two recent rejections:
  if the caller has an appointment of any status whose \<^verbatim>\<open>fecha\<close> is a stored
  timestamp within the local day of the requested date, the call fails with
  \<^verbatim>\<open>already-exists\<close>, having made the rejection query and then the day query and
  nothing else. Whenever the call succeeds, what it did is the rejection query, the day
  query and the write, in that order.
\<close>

lemma crearCita_one_per_day:
  assumes "data ''fecha'' = Some (JStr s)"
    and "''Citas'' \<notin> set (down w)"
    and "clock_ok w"
    and "length (rejections_from w uid (subMonths (tz w) (clock w) 1)) < 2"
    and "day_ok w (date_parse w s)"
  shows "(stamped_same_day w uid (date_parse w s) \<noteq> [] \<longrightarrow>
           crearCita data (Some uid) w =
             (Inl (HttpsError AlreadyExists),
              log (Query ''Citas'' (gate2 w uid (date_parse w s)))
                (log (Query ''Citas'' (gate1 w uid)) w))) \<and>
         (\<forall>ref w'. crearCita data (Some uid) w = (Inr ref, w') \<longrightarrow>
           trace w' = trace w @
             [Query ''Citas'' (gate1 w uid),
              Query ''Citas'' (gate2 w uid (date_parse w s)),
              Add ''Citas'' ref])"
proof -
  have r: "crearCita data (Some uid) w =
     (if stamped_same_day w uid (date_parse w s) \<noteq> []
      then (Inl (HttpsError AlreadyExists),
            log (Query ''Citas'' (gate2 w uid (date_parse w s)))
              (log (Query ''Citas'' (gate1 w uid)) w))
      else (case date_parse w s of
              None \<Rightarrow> (Inl (HttpsError Internal),
                        log (Query ''Citas'' (gate2 w uid (date_parse w s)))
                          (log (Query ''Citas'' (gate1 w uid)) w))
            | Some t \<Rightarrow>
                if \<not> storable_date (Some t)
                then (Inl (HttpsError Internal),
                      log (Query ''Citas'' (gate2 w uid (date_parse w s)))
                        (log (Query ''Citas'' (gate1 w uid)) w))
                else (Inr (fresh w (issued w)),
                      log (Add ''Citas'' (fresh w (issued w)))
                        ((log (Query ''Citas'' (gate2 w uid (date_parse w s)))
                            (log (Query ''Citas'' (gate1 w uid)) w))
                         \<lparr>store := (store w)(''Citas'' := store w ''Citas'' @
                               [(fresh w (issued w),
                                 nuevaCita data uid (JTimestamp t) (JTimestamp (clock w)))]),
                           issued := Suc (issued w)\<rparr>))))"
    using assms crearCita_run [of data s uid w] by (simp add: Let_def)
  show ?thesis
  proof (intro conjI impI allI)
    assume "stamped_same_day w uid (date_parse w s) \<noteq> []"
    then show "crearCita data (Some uid) w =
             (Inl (HttpsError AlreadyExists),
              log (Query ''Citas'' (gate2 w uid (date_parse w s)))
                (log (Query ''Citas'' (gate1 w uid)) w))"
      by (simp add: r)
  next
    fix ref w'
    assume "crearCita data (Some uid) w = (Inr ref, w')"
    then show "trace w' = trace w @
             [Query ''Citas'' (gate1 w uid),
              Query ''Citas'' (gate2 w uid (date_parse w s)),
              Add ''Citas'' ref]"
      unfolding r by (cases "date_parse w s") (auto split: if_splits)
  qed
qed

lemma crearCita_one_per_day_example:
  "crearCita data_ok (Some ''ana'') w_same_day =
     (Inl (HttpsError AlreadyExists),
      log (Query ''Citas'' (gate2 w_same_day ''ana'' (Some 1679306400000)))
        (log (Query ''Citas'' (gate1 w_same_day ''ana'')) w_same_day)) \<and>
   fst (crearCita data_ok (Some ''ana'') w_empty) = Inr ''auto'' \<and>
   trace (snd (crearCita data_ok (Some ''ana'') w_empty)) =
     [Query ''Citas'' (gate1 w_empty ''ana''),
      Query ''Citas'' (gate2 w_empty ''ana'' (Some 1679306400000)),
      Add ''Citas'' ''auto'']"
proof -
  have 1: "data_ok ''fecha'' = Some (JStr ''2023-03-20T10:00:00Z'')"
    by (simp add: data_ok_def)
  have p: "date_parse w_same_day ''2023-03-20T10:00:00Z'' = Some 1679306400000"
    "date_parse w_empty ''2023-03-20T10:00:00Z'' = Some 1679306400000"
    by (simp_all add: w_same_day_def w_empty_def ex_parse_def)
  have 2: "''Citas'' \<notin> set (down w_same_day)" "''Citas'' \<notin> set (down w_empty)"
    by (simp_all add: w_same_day_def w_empty_def)
  have 3: "clock_ok w_same_day" "clock_ok w_empty"
    by (simp_all add: w_same_day_def w_empty_def)
  have 4: "length (rejections_from w_same_day ''ana''
                (subMonths (tz w_same_day) (clock w_same_day) 1)) < 2"
    "length (rejections_from w_empty ''ana'' (subMonths (tz w_empty) (clock w_empty) 1)) < 2"
    by (simp_all add: w_same_day_def w_empty_def rejections_from_def ex_cita_def)
  have 5: "day_ok w_same_day (date_parse w_same_day ''2023-03-20T10:00:00Z'')"
    "day_ok w_empty (date_parse w_empty ''2023-03-20T10:00:00Z'')"
    unfolding p by (simp_all add: w_same_day_def w_empty_def)
  have 6: "stamped_same_day w_same_day ''ana'' (Some 1679306400000) \<noteq> []"
    by (simp add: w_same_day_def stamped_same_day_def ex_cita_def ex_startOfDay ex_endOfDay)
  have 7: "crearCita data_ok (Some ''ana'') w_empty =
      (Inr ''auto'', snd (crearCita data_ok (Some ''ana'') w_empty))"
    by (simp add: crearCita_run [where data = data_ok and s = "''2023-03-20T10:00:00Z''", OF 1])
       (simp add: w_empty_def ex_parse_def storable_date_def stamped_same_day_def rejections_from_def)
  have a: "crearCita data_ok (Some ''ana'') w_same_day =
     (Inl (HttpsError AlreadyExists),
      log (Query ''Citas'' (gate2 w_same_day ''ana'' (Some 1679306400000)))
        (log (Query ''Citas'' (gate1 w_same_day ''ana'')) w_same_day))"
    using crearCita_one_per_day
      [where data = data_ok and s = "''2023-03-20T10:00:00Z''" and w = w_same_day
         and uid = "''ana''", OF 1 2(1) 3(1) 4(1) 5(1)] 6
    by (simp add: p)
  have b: "trace (snd (crearCita data_ok (Some ''ana'') w_empty)) =
     trace w_empty @
     [Query ''Citas'' (gate1 w_empty ''ana''),
      Query ''Citas'' (gate2 w_empty ''ana'' (Some 1679306400000)),
      Add ''Citas'' ''auto'']"
    using crearCita_one_per_day
      [where data = data_ok and s = "''2023-03-20T10:00:00Z''" and w = w_empty
         and uid = "''ana''", OF 1 2(2) 3(2) 4(2) 5(2)] 7
    by (simp add: p)
  show ?thesis
    using a b 7 by (simp add: w_empty_def) (metis fst_conv)
qed

text \<open>
  C6. Whenever \<^verbatim>\<open>crearCita\<close> (revised) succeeds, the caller is authenticated, the
  payload's \<^verbatim>\<open>fecha\<close> is a string that parses, and exactly one appointment is appended
  under the returned identifier: both statuses are \<^verbatim>\<open>espera\<close>, the owner is the caller
  whatever the payload says, both timestamps are the server's time, the date is the
  parsed instant, and every other field is the payload's.
\<close>

theorem crearCita_persisted:
  assumes "crearCita data auth w = (Inr ref, w')"
  shows "\<exists>uid s t c.
           auth = Some uid \<and> data ''fecha'' = Some (JStr s) \<and> date_parse w s = Some t \<and>
           store w' ''Citas'' = store w ''Citas'' @ [(ref, c)] \<and>
           c ''estado_solicitud'' = Some (JStr ''espera'') \<and>
           c ''estado_atendida'' = Some (JStr ''espera'') \<and>
           c ''uid_cliente'' = Some (JStr uid) \<and>
           c ''createdAt'' = Some (JTimestamp (clock w)) \<and>
           c ''updatedAt'' = Some (JTimestamp (clock w)) \<and>
           c ''fecha'' = Some (JTimestamp t) \<and>
           (\<forall>k. k \<notin> {''uid_cliente'', ''fecha'', ''estado_solicitud'', ''estado_atendida'',
                        ''createdAt'', ''updatedAt''} \<longrightarrow> c k = data k)"
proof (cases auth)
  case None
  with assms show ?thesis by (simp add: crearCita_unauth)
next
  case (Some uid)
  show ?thesis
  proof (cases "typeof (data ''fecha'') = ''string''")
    case False
    with assms Some show ?thesis by (simp add: crearCita_invalid)
  next
    case True
    then obtain s where s: "data ''fecha'' = Some (JStr s)"
      by (auto simp: typeof_string)
    have "\<exists>t. date_parse w s = Some t \<and>
             store w' ''Citas'' = store w ''Citas'' @
               [(ref, nuevaCita data uid (JTimestamp t) (JTimestamp (clock w)))]"
    proof (cases "date_parse w s")
      case None
      with assms Some show ?thesis
        by (simp add: crearCita_run [of data s uid w, OF s] Let_def split: if_splits)
    next
      case (Some t)
      with assms \<open>auth = Some uid\<close> show ?thesis
        by (simp add: crearCita_run [of data s uid w, OF s] Let_def split: if_splits) auto
    qed
    then obtain t where t: "date_parse w s = Some t"
      and w': "store w' ''Citas'' = store w ''Citas'' @
                 [(ref, nuevaCita data uid (JTimestamp t) (JTimestamp (clock w)))]"
      by blast
    show ?thesis
      using Some s t w' by (simp add: nuevaCita_def)
  qed
qed

theorem crearCita_persisted_witness:
  "fst (crearCita data_ok (Some ''ana'') w_empty) = Inr ''auto'' \<and>
   (case store (snd (crearCita data_ok (Some ''ana'') w_empty)) ''Citas'' of
      [(i, c)] \<Rightarrow>
        i = ''auto'' \<and>
        c ''estado_solicitud'' = Some (JStr ''espera'') \<and>
        c ''estado_atendida'' = Some (JStr ''espera'') \<and>
        c ''uid_cliente'' = Some (JStr ''ana'') \<and>
        c ''createdAt'' = Some (JTimestamp 1678881600000) \<and>
        c ''updatedAt'' = Some (JTimestamp 1678881600000) \<and>
        c ''fecha'' = Some (JTimestamp 1679306400000) \<and>
        c ''escenario_nombre'' = Some (JStr ''Estudio'')
    | _ \<Rightarrow> False)"
proof -
  have 1: "data_ok ''fecha'' = Some (JStr ''2023-03-20T10:00:00Z'')"
    by (simp add: data_ok_def)
  have 7: "crearCita data_ok (Some ''ana'') w_empty =
      (Inr ''auto'', snd (crearCita data_ok (Some ''ana'') w_empty))"
    by (simp add: crearCita_run [where data = data_ok and s = "''2023-03-20T10:00:00Z''", OF 1])
       (simp add: w_empty_def ex_parse_def storable_date_def stamped_same_day_def rejections_from_def)
  from crearCita_persisted [OF 7]
  obtain uid s t c where c: "Some ''ana'' = Some uid" "data_ok ''fecha'' = Some (JStr s)"
    "date_parse w_empty s = Some t"
    "store (snd (crearCita data_ok (Some ''ana'') w_empty)) ''Citas'' =
       store w_empty ''Citas'' @ [(''auto'', c)]"
    "c ''estado_solicitud'' = Some (JStr ''espera'')"
    "c ''estado_atendida'' = Some (JStr ''espera'')"
    "c ''uid_cliente'' = Some (JStr uid)"
    "c ''createdAt'' = Some (JTimestamp (clock w_empty))"
    "c ''updatedAt'' = Some (JTimestamp (clock w_empty))"
    "c ''fecha'' = Some (JTimestamp t)"
    "\<forall>k. k \<notin> {''uid_cliente'', ''fecha'', ''estado_solicitud'', ''estado_atendida'',
                ''createdAt'', ''updatedAt''} \<longrightarrow> c k = data_ok k"
    by (elim exE conjE) (rule that; assumption)
  from c(2) have s: "s = ''2023-03-20T10:00:00Z''"
    by (simp add: data_ok_def)
  from c(3) have t: "t = 1679306400000"
    by (simp add: s w_empty_def ex_parse_def)
  from c(11) have "''escenario_nombre'' \<notin> {''uid_cliente'', ''fecha'', ''estado_solicitud'',
       ''estado_atendida'', ''createdAt'', ''updatedAt''} \<longrightarrow>
       c ''escenario_nombre'' = data_ok ''escenario_nombre''"
    by (rule spec)
  then have n: "c ''escenario_nombre'' = Some (JStr ''Estudio'')"
    by (simp add: data_ok_def)
  have st: "store (snd (crearCita data_ok (Some ''ana'') w_empty)) ''Citas'' = [(''auto'', c)]"
    using c(4) by (simp add: w_empty_def)
  have "fst (crearCita data_ok (Some ''ana'') w_empty) = Inr ''auto''"
    by (subst 7) simp
  moreover have "c ''estado_solicitud'' = Some (JStr ''espera'')"
    "c ''estado_atendida'' = Some (JStr ''espera'')"
    "c ''uid_cliente'' = Some (JStr ''ana'')"
    "c ''createdAt'' = Some (JTimestamp 1678881600000)"
    "c ''updatedAt'' = Some (JTimestamp 1678881600000)"
    "c ''fecha'' = Some (JTimestamp 1679306400000)"
    using c(1,5-10) t by (simp_all add: w_empty_def)
  ultimately show ?thesis
    using n by (simp add: st)
qed

text \<open>
  C7, as the code has it. Without an authenticated caller \<^verbatim>\<open>crearCita\<close> (revised)
  fails with \<^verbatim>\<open>unauthenticated\<close>; with one, when the payload's \<^verbatim>\<open>fecha\<close> is missing or
  is not a string, it fails with \<^verbatim>\<open>invalid-argument\<close>. In both cases the world is
  untouched: no query and no write.
\<close>

theorem crearCita_preconditions:
  "crearCita data None w = (Inl (HttpsError Unauthenticated), w) \<and>
   (typeof (data ''fecha'') \<noteq> ''string'' \<longrightarrow>
      crearCita data (Some uid) w = (Inl (HttpsError InvalidArgument), w))"
  by (simp add: crearCita_unauth crearCita_invalid)

theorem crearCita_preconditions_witness:
  "crearCita data_ok None w_empty = (Inl (HttpsError Unauthenticated), w_empty) \<and>
   crearCita Map.empty (Some ''ana'') w_empty = (Inl (HttpsError InvalidArgument), w_empty) \<and>
   crearCita [''fecha'' \<mapsto> JNum 1679306400000] (Some ''ana'') w_empty =
     (Inl (HttpsError InvalidArgument), w_empty)"
  using crearCita_preconditions [of data_ok w_empty "''ana''"]
    crearCita_preconditions [of Map.empty w_empty "''ana''"]
    crearCita_preconditions [of "[''fecha'' \<mapsto> JNum 1679306400000]" w_empty "''ana''"]
  by simp

text \<open>A string \<^verbatim>\<open>fecha\<close> never ends as an invalid argument, whether it parses
  or not.\<close>

lemma crearCita_string_not_invalid:
  assumes "data ''fecha'' = Some (JStr s)"
  shows "fst (crearCita data (Some uid) w) \<noteq> Inl (HttpsError InvalidArgument)"
  by (cases "date_parse w s") (simp_all add: crearCita_run [of data s uid w, OF assms] Let_def)

text \<open>A string that does not parse is not refused as an invalid argument: the
  rejection query runs, and here it is that gate which fails the call.\<close>

theorem crearCita_unparseable_counterexample:
  "date_parse w_blocked ''hola'' = None \<and>
   fst (crearCita data_hola (Some ''ana'') w_blocked) = Inl (HttpsError FailedPrecondition) \<and>
   trace (snd (crearCita data_hola (Some ''ana'') w_blocked)) =
     [Query ''Citas'' (gate1 w_blocked ''ana'')]"
proof -
  have 1: "data_hola ''fecha'' = Some (JStr ''hola'')"
    by (simp add: data_hola_def)
  have 4: "2 \<le> length (rejections_from w_blocked ''ana'' 1676462400000)"
    by (simp add: w_blocked_def rejections_from_def ex_cita_def)
  have "crearCita data_hola (Some ''ana'') w_blocked =
      (Inl (HttpsError FailedPrecondition), log (Query ''Citas'' (gate1 w_blocked ''ana'')) w_blocked)"
    using 4
    by (simp add: crearCita_run [where data = data_hola and s = "''hola''", OF 1])
       (simp add: w_blocked_def ex_subMonths)
  then show ?thesis
    by (simp add: w_blocked_def ex_parse_def)
qed

subsection \<open>The authorization check\<close>

theorem esAdministrador_fail_closed_witness:
  "esAdministrador None (ex_world [ex_admin ''a1'' ''root''] [] []) =
     (Inr False, ex_world [ex_admin ''a1'' ''root''] [] []) \<and>
   esAdministrador (Some []) (ex_world [ex_admin ''a1'' ''root''] [] []) =
     (Inr False, ex_world [ex_admin ''a1'' ''root''] [] []) \<and>
   fst (esAdministrador (Some ''root'')
          ((ex_world [ex_admin ''a1'' ''root''] [] [])\<lparr>down := [''Admin'']\<rparr>)) = Inr False \<and>
   fst (esAdministrador (Some ''root'') (ex_world [ex_admin ''a1'' ''root''] [] [])) = Inr True \<and>
   fst (esAdministrador (Some ''ana'') (ex_world [ex_admin ''a1'' ''root''] [] [])) = Inr False"
  using esAdministrador_fail_closed [of None "ex_world [ex_admin ''a1'' ''root''] [] []"]
    esAdministrador_fail_closed [of "Some []" "ex_world [ex_admin ''a1'' ''root''] [] []"]
    esAdministrador_fail_closed [of "Some ''root''"
      "(ex_world [ex_admin ''a1'' ''root''] [] [])\<lparr>down := [''Admin'']\<rparr>" "''root''"]
    esAdministrador_fail_closed [of "Some ''root''" "ex_world [ex_admin ''a1'' ''root''] [] []"
      "''root''"]
    esAdministrador_fail_closed [of "Some ''ana''" "ex_world [ex_admin ''a1'' ''root''] [] []"
      "''ana''"]
  by (simp add: admin_records_def ex_admin_def)

text \<open>The first version lets a failed lookup escape.\<close>

lemma esAdministrador_v1_propagates:
  "truthy (map_option JStr uid) \<Longrightarrow> ''Admin'' \<in> set (down w) \<Longrightarrow>
   fst (esAdministrador_v1 uid w) = Inl StoreError"
  by (cases uid) (simp_all add: esAdministrador_v1_def run_defs query_def)

subsection \<open>Updating an appointment\<close>

lemma esAdministrador_run:
  "u \<noteq> [] \<Longrightarrow> esAdministrador (Some u) w = (Inr (is_admin w u), log (admin_query u) w)"
  by (simp add: esAdministrador_def run_defs query_def is_admin_def admin_records_def
      admin_query_def matching_Eq1)

lemma esAdministrador_v1_run:
  "u \<noteq> [] \<Longrightarrow> ''Admin'' \<notin> set (down w) \<Longrightarrow>
   esAdministrador_v1 (Some u) w = (Inr (admin_records w u \<noteq> []), log (admin_query u) w)"
  by (simp add: esAdministrador_v1_def run_defs query_def admin_records_def
      admin_query_def matching_Eq1)

text \<open>\<^verbatim>\<open>Object.keys(campos).length === 1 && campos.estado_solicitud === 'rechazada'\<close>
  holds of exactly one object.\<close>

lemma only_cancel:
  "(card (dom m) = 1 \<and> strict_eq (m ''estado_solicitud'') (Some (JStr ''rechazada''))) =
   (m = [''estado_solicitud'' \<mapsto> JStr ''rechazada''])"
proof
  assume a: "card (dom m) = 1 \<and> strict_eq (m ''estado_solicitud'') (Some (JStr ''rechazada''))"
  from a have "strict_eq (m ''estado_solicitud'') (Some (JStr ''rechazada''))"
    by (rule conjunct2)
  then have v: "m ''estado_solicitud'' = Some (JStr ''rechazada'')"
    by (cases "m ''estado_solicitud''") simp_all
  from a have "card (dom m) = 1"
    by (rule conjunct1)
  then obtain k where k: "dom m = {k}"
    by (rule card_1_singletonE)
  from v have "''estado_solicitud'' \<in> dom m"
    by (simp add: domIff)
  with k have d: "dom m = {''estado_solicitud''}"
    by simp
  show "m = [''estado_solicitud'' \<mapsto> JStr ''rechazada'']"
  proof (rule ext)
    fix x
    show "m x = [''estado_solicitud'' \<mapsto> JStr ''rechazada''] x"
    proof (cases "x = ''estado_solicitud''")
      case True
      with v show ?thesis by simp
    next
      case False
      with d have "x \<notin> dom m" by simp
      then have "m x = None" by (simp add: domIff)
      with False show ?thesis by simp
    qed
  qed
next
  assume "m = [''estado_solicitud'' \<mapsto> JStr ''rechazada'']"
  then show "card (dom m) = 1 \<and> strict_eq (m ''estado_solicitud'') (Some (JStr ''rechazada''))"
    by simp
qed

lemma only_cancel_campos:
  "(card (dom data - {''id''}) = Suc 0 \<and>
    strict_eq (data ''estado_solicitud'') (Some (JStr ''rechazada''))) =
   (data(''id'' := None) = [''estado_solicitud'' \<mapsto> JStr ''rechazada''])"
  using only_cancel [of "data(''id'' := None)"] by simp

lemma owner_neq: "(\<not> strict_eq v (Some (JStr u))) = (v \<noteq> Some (JStr u))"
  by (cases v) auto

text \<open>The client's permitted update, and what any successful update leaves in the
  store.\<close>

lemma actualizarCita_v1_client:
  assumes "uid \<noteq> []" and "''Admin'' \<notin> set (down w)" and "admin_records w uid = []"
    and "data ''id'' = Some (JStr i)" and "i \<noteq> []" and "''Citas'' \<notin> set (down w)"
    and "map_of (store w ''Citas'') i = Some cita"
  shows "fst (actualizarCita_v1 data (Some uid) w) =
           (if cita ''uid_cliente'' = Some (JStr uid) \<and>
               data(''id'' := None) = [''estado_solicitud'' \<mapsto> JStr ''rechazada'']
            then Inr () else Inl (HttpsError PermissionDenied))"
    and "store (snd (actualizarCita_v1 data (Some uid) w)) ''Citas'' =
           (if cita ''uid_cliente'' = Some (JStr uid) \<and>
               data(''id'' := None) = [''estado_solicitud'' \<mapsto> JStr ''rechazada'']
            then merge_into i [''estado_solicitud'' \<mapsto> JStr ''rechazada'',
                               ''updatedAt'' \<mapsto> JTimestamp (clock w)] (store w ''Citas'')
            else store w ''Citas'')"
  using assms
  by (simp_all add: actualizarCita_v1_def esAdministrador_v1_run run_defs get_doc_def doc_id_def
      update_doc_def only_cancel_campos owner_neq Let_def)

lemma actualizarCita_client:
  assumes "uid \<noteq> []" and "\<not> is_admin w uid"
    and "data ''id'' = Some (JStr i)" and "i \<noteq> []" and "''Citas'' \<notin> set (down w)"
    and "map_of (store w ''Citas'') i = Some cita"
  shows "fst (actualizarCita data (Some uid) w) =
           (if cita ''uid_cliente'' = Some (JStr uid) \<and>
               data(''id'' := None) = [''estado_solicitud'' \<mapsto> JStr ''rechazada'']
            then Inr () else Inl (HttpsError Internal))"
    and "store (snd (actualizarCita data (Some uid) w)) ''Citas'' =
           (if cita ''uid_cliente'' = Some (JStr uid) \<and>
               data(''id'' := None) = [''estado_solicitud'' \<mapsto> JStr ''rechazada'']
            then merge_into i [''estado_solicitud'' \<mapsto> JStr ''rechazada'',
                               ''updatedAt'' \<mapsto> JTimestamp (clock w)] (store w ''Citas'')
            else store w ''Citas'')"
  using assms
  by (simp_all add: actualizarCita_def esAdministrador_run run_defs get_doc_def doc_id_def
      update_doc_def only_cancel_campos owner_neq Let_def)

lemma actualizarCita_admin:
  assumes "is_admin w uid"
    and "data ''id'' = Some (JStr i)" and "i \<noteq> []" and "''Citas'' \<notin> set (down w)"
    and "map_of (store w ''Citas'') i = Some cita"
  shows "fst (actualizarCita data (Some uid) w) = Inr ()"
    and "store (snd (actualizarCita data (Some uid) w)) ''Citas'' =
           merge_into i ((data(''id'' := None))(''updatedAt'' \<mapsto> JTimestamp (clock w)))
             (store w ''Citas'')"
proof -
  from assms(1) have u: "uid \<noteq> []"
    by (simp add: is_admin_def)
  show "fst (actualizarCita data (Some uid) w) = Inr ()"
    using assms u
    by (simp add: actualizarCita_def esAdministrador_run run_defs get_doc_def doc_id_def
        update_doc_def Let_def)
  show "store (snd (actualizarCita data (Some uid) w)) ''Citas'' =
           merge_into i ((data(''id'' := None))(''updatedAt'' \<mapsto> JTimestamp (clock w)))
             (store w ''Citas'')"
    using assms u
    by (simp add: actualizarCita_def esAdministrador_run run_defs get_doc_def doc_id_def
        update_doc_def Let_def)
qed

lemma w_citas_facts:
  "\<not> is_admin w_citas ''ana''" "\<not> is_admin w_citas ''eva''" "is_admin w_citas ''root''"
  "''Admin'' \<notin> set (down w_citas)" "''Citas'' \<notin> set (down w_citas)"
  "admin_records w_citas ''ana'' = []" "admin_records w_citas ''eva'' = []"
  "map_of (store w_citas ''Citas'') ''c1'' = Some (snd (ex_cita ''c1'' ''ana'' ''espera'' 1679335200000 1678795200000))"
  by (simp_all add: w_citas_def is_admin_def admin_records_def ex_admin_def ex_cita_def)

lemma data_facts:
  "data_cancel ''id'' = Some (JStr ''c1'')" "data_accept ''id'' = Some (JStr ''c1'')"
  "data_two ''id'' = Some (JStr ''c1'')"
  "data_cancel(''id'' := None) = [''estado_solicitud'' \<mapsto> JStr ''rechazada'']"
  "data_accept(''id'' := None) \<noteq> [''estado_solicitud'' \<mapsto> JStr ''rechazada'']"
  "data_two(''id'' := None) \<noteq> [''estado_solicitud'' \<mapsto> JStr ''rechazada'']"
proof -
  show "data_cancel ''id'' = Some (JStr ''c1'')" "data_accept ''id'' = Some (JStr ''c1'')"
    "data_two ''id'' = Some (JStr ''c1'')"
    by (simp_all add: data_cancel_def data_accept_def data_two_def)
  show "data_cancel(''id'' := None) = [''estado_solicitud'' \<mapsto> JStr ''rechazada'']"
    by (rule ext) (simp add: data_cancel_def)
  show "data_accept(''id'' := None) \<noteq> [''estado_solicitud'' \<mapsto> JStr ''rechazada'']"
  proof
    assume "data_accept(''id'' := None) = [''estado_solicitud'' \<mapsto> JStr ''rechazada'']"
    then have "(data_accept(''id'' := None)) ''estado_solicitud'' =
        [''estado_solicitud'' \<mapsto> JStr ''rechazada''] ''estado_solicitud''"
      by (rule arg_cong)
    then show False
      by (simp add: data_accept_def)
  qed
  show "data_two(''id'' := None) \<noteq> [''estado_solicitud'' \<mapsto> JStr ''rechazada'']"
  proof
    assume "data_two(''id'' := None) = [''estado_solicitud'' \<mapsto> JStr ''rechazada'']"
    then have "(data_two(''id'' := None)) ''estado_atendida'' =
        [''estado_solicitud'' \<mapsto> JStr ''rechazada''] ''estado_atendida''"
      by (rule arg_cong)
    then show False
      by (simp add: data_two_def)
  qed
qed

text \<open>
  C1 at the inputs where the revised handler departs from it. Eva, who does not own
  \<^verbatim>\<open>c1\<close>, asks to cancel it; Ana, who owns it, asks to accept it, and asks to cancel it
  together with a second field. The first version answers \<^verbatim>\<open>permission-denied\<close> each
  time. The revised one throws the same errors inside its \<^verbatim>\<open>try\<close>, and its
  \<^verbatim>\<open>catch\<close> rethrows every error as \<^verbatim>\<open>internal\<close>. Ana's lone cancellation and the
  administrator's update succeed in both.
\<close>

theorem actualizarCita_error_code:
  "fst (actualizarCita_v1 data_cancel (Some ''eva'') w_citas) = Inl (HttpsError PermissionDenied) \<and>
   fst (actualizarCita data_cancel (Some ''eva'') w_citas) = Inl (HttpsError Internal) \<and>
   fst (actualizarCita_v1 data_accept (Some ''ana'') w_citas) = Inl (HttpsError PermissionDenied) \<and>
   fst (actualizarCita data_accept (Some ''ana'') w_citas) = Inl (HttpsError Internal) \<and>
   fst (actualizarCita_v1 data_two (Some ''ana'') w_citas) = Inl (HttpsError PermissionDenied) \<and>
   fst (actualizarCita data_two (Some ''ana'') w_citas) = Inl (HttpsError Internal) \<and>
   fst (actualizarCita data_cancel (Some ''ana'') w_citas) = Inr () \<and>
   fst (actualizarCita data_two (Some ''root'') w_citas) = Inr ()"
  using actualizarCita_v1_client(1) [where w = w_citas and data = data_cancel and uid = "''eva''"
      and i = "''c1''", OF _ w_citas_facts(4) w_citas_facts(7) data_facts(1) _ w_citas_facts(5,8)]
    actualizarCita_v1_client(1) [where w = w_citas and data = data_accept and uid = "''ana''"
      and i = "''c1''", OF _ w_citas_facts(4) w_citas_facts(6) data_facts(2) _ w_citas_facts(5,8)]
    actualizarCita_v1_client(1) [where w = w_citas and data = data_two and uid = "''ana''"
      and i = "''c1''", OF _ w_citas_facts(4) w_citas_facts(6) data_facts(3) _ w_citas_facts(5,8)]
    actualizarCita_client(1) [where w = w_citas and data = data_cancel and uid = "''eva''"
      and i = "''c1''", OF _ w_citas_facts(2) data_facts(1) _ w_citas_facts(5,8)]
    actualizarCita_client(1) [where w = w_citas and data = data_accept and uid = "''ana''"
      and i = "''c1''", OF _ w_citas_facts(1) data_facts(2) _ w_citas_facts(5,8)]
    actualizarCita_client(1) [where w = w_citas and data = data_two and uid = "''ana''"
      and i = "''c1''", OF _ w_citas_facts(1) data_facts(3) _ w_citas_facts(5,8)]
    actualizarCita_client(1) [where w = w_citas and data = data_cancel and uid = "''ana''"
      and i = "''c1''", OF _ w_citas_facts(1) data_facts(1) _ w_citas_facts(5,8)]
    actualizarCita_admin(1) [where w = w_citas and data = data_two and uid = "''root''"
      and i = "''c1''", OF w_citas_facts(3) data_facts(3) _ w_citas_facts(5,8)]
  by (simp add: data_facts ex_cita_def)

subsection \<open>Notifications on a change of status\<close>

lemma multicasts_append [simp]: "multicasts (xs @ ys) = multicasts xs @ multicasts ys"
  by (simp add: multicasts_def map_filter_def)

lemma multicasts_simps [simp]:
  "multicasts [] = []"
  "multicasts (Multicast ts n # es) = ts # multicasts es"
  "multicasts (Query c cs # es) = multicasts es"
  "multicasts (Get c i # es) = multicasts es"
  "multicasts (Add c i # es) = multicasts es"
  "multicasts (Update c i # es) = multicasts es"
  by (simp_all add: multicasts_def map_filter_def)

lemma strict_eq_str: "strict_eq v (Some (JStr s)) = (v = Some (JStr s))"
  by (cases v) auto

lemma or_else_titulo:
  "or_else (newData ''escenario_nombre'') (Some (JStr ''Cita'')) = Some (titulo_cita newData)"
  by (cases "newData ''escenario_nombre''") (simp_all add: or_else_def titulo_cita_def)

lemma titulo_cita_named: "n \<noteq> [] \<Longrightarrow> d ''escenario_nombre'' = Some (JStr n) \<Longrightarrow> titulo_cita d = JStr n"
  by (simp add: titulo_cita_def)

lemma guardarNotificacion_run:
  "guardarNotificacion (Some u) (Some t) tipo m img w =
     (Inr (),
      if ''Notificaciones'' \<in> set (down w)
      then log (Add ''Notificaciones'' (fresh w (issued w))) w
      else log (Add ''Notificaciones'' (fresh w (issued w)))
             (w\<lparr>store := (store w)(''Notificaciones'' := store w ''Notificaciones'' @
                   [(fresh w (issued w),
                     [''uid_usuario'' \<mapsto> u, ''titulo'' \<mapsto> t, ''tipo'' \<mapsto> JStr tipo,
                      ''mensaje'' \<mapsto> JStr m,
                      ''imagen'' \<mapsto> (case img of None \<Rightarrow> JNull | Some i \<Rightarrow> i),
                      ''createdAt'' \<mapsto> JTimestamp (clock w)])]),
                 issued := Suc (issued w)\<rparr>))"
  by (simp add: guardarNotificacion_def notification_doc_def run_defs add_doc_def)

lemma guardarNotificacion_no_uid: "guardarNotificacion None t tipo m img w = (Inr (), w)"
  by (simp add: guardarNotificacion_def notification_doc_def run_defs)

lemma matching_devices:
  "matching [Eq ''uid_usuario'' (Some u), Eq ''activo'' (Some (JBool True))]
     (store w ''Dispositivos'') = active_devices w u"
  by (simp add: matching_def active_devices_def)

lemma devices_kept [simp]:
  "active_devices (log e w) u = active_devices w u"
  "active_devices (w\<lparr>store := (store w)(''Notificaciones'' := x), issued := n\<rparr>) u =
     active_devices w u"
  "user_devices (log e w) u = user_devices w u"
  "user_devices (w\<lparr>store := (store w)(''Notificaciones'' := x), issued := n\<rparr>) u =
     user_devices w u"
  by (simp_all add: active_devices_def user_devices_def)

lemma notificarCambioCita_unchanged:
  "strict_eq (newData ''estado_solicitud'') (oldData ''estado_solicitud'') \<Longrightarrow>
   notificarCambioCita oldData newData w = (Inr (), w)"
  by (simp add: notificarCambioCita_def run_defs)

lemma notificarCambioCita_other:
  "newData ''estado_solicitud'' \<noteq> Some (JStr ''aceptada'') \<Longrightarrow>
   newData ''estado_solicitud'' \<noteq> Some (JStr ''rechazada'') \<Longrightarrow>
   notificarCambioCita oldData newData w = (Inr (), w)"
  by (simp add: notificarCambioCita_def run_defs strict_eq_str Let_def)

text \<open>After a change to \<^verbatim>\<open>aceptada\<close> or \<^verbatim>\<open>rechazada\<close> of an appointment that has an
  owner: the record is attempted, then the owner's active devices are read, then one call
  carries all their tokens.\<close>

lemma notificarCambioCita_run:
  assumes "\<not> strict_eq (newData ''estado_solicitud'') (oldData ''estado_solicitud'')"
    and "newData ''estado_solicitud'' = Some (JStr ''aceptada'') \<or>
         newData ''estado_solicitud'' = Some (JStr ''rechazada'')"
    and "newData ''uid_cliente'' = Some u"
  shows "notificarCambioCita oldData newData w =
     (let w1 = snd (guardarNotificacion (Some u) (Some (titulo_cita newData)) str_Confirmacion
                     (mensaje_cita w newData) (newData ''escenario_img_principal'') w);
          q = Query ''Dispositivos''
                [Eq ''uid_usuario'' (Some u), Eq ''activo'' (Some (JBool True))];
          tokens = tokens_of (active_devices w u);
          n = \<lparr>title = Some (titulo_cita newData), body = mensaje_cita w newData,
               image = or_else (newData ''escenario_img_principal'') (Some (JStr []))\<rparr>
      in
      if ''Dispositivos'' \<in> set (down w) then (Inl StoreError, log q w1)
      else if tokens = [] then (Inr (), log q w1)
      else if 500 < length tokens then (Inl OtherError, log (Multicast tokens n) (log q w1))
      else (Inr (), log (Multicast tokens n) (log q w1)))"
proof -
  have c: "newData ''estado_solicitud'' \<noteq> oldData ''estado_solicitud'' \<or>
           \<not> strict_eq (newData ''estado_solicitud'') (oldData ''estado_solicitud'')"
    using assms(1) by simp
  from assms(2) show ?thesis
  proof
    assume "newData ''estado_solicitud'' = Some (JStr ''aceptada'')"
    with assms(1,3) show ?thesis
      by (simp add: notificarCambioCita_def or_else_titulo guardarNotificacion_run run_defs
          mensaje_cita_def query_def matching_devices sendEachForMulticast_def Let_def)
  next
    assume "newData ''estado_solicitud'' = Some (JStr ''rechazada'')"
    with assms(1,3) show ?thesis
      by (simp add: notificarCambioCita_def or_else_titulo guardarNotificacion_run run_defs
          mensaje_cita_def query_def matching_devices sendEachForMulticast_def Let_def)
  qed
qed

text \<open>
  C5. On the snapshots before and after an update: if \<^verbatim>\<open>estado_solicitud\<close> is
  unchanged, or changed to a value other than \<^verbatim>\<open>aceptada\<close> and \<^verbatim>\<open>rechazada\<close>,
  \<^verbatim>\<open>notificarCambioCita\<close> returns with the world untouched. If it changed to one of the
  two, for an appointment that has an owner and with the notification log reachable,
  exactly one record is appended: recipient the owner, title the scenario name
  (\<^verbatim>\<open>"Cita"\<close> when the appointment has none), category \<^verbatim>\<open>Confirmaci\'on\<close>, the sentence
  naming the title, image the scenario's principal image or \<^verbatim>\<open>null\<close>. In every case at
  most one gateway call is added.
\<close>

theorem notificarCambioCita_effects:
  "(strict_eq (newData ''estado_solicitud'') (oldData ''estado_solicitud'') \<longrightarrow>
      notificarCambioCita oldData newData w = (Inr (), w)) \<and>
   (newData ''estado_solicitud'' \<noteq> Some (JStr ''aceptada'') \<and>
    newData ''estado_solicitud'' \<noteq> Some (JStr ''rechazada'') \<longrightarrow>
      notificarCambioCita oldData newData w = (Inr (), w)) \<and>
   (\<not> strict_eq (newData ''estado_solicitud'') (oldData ''estado_solicitud'') \<and>
    (newData ''estado_solicitud'' = Some (JStr ''aceptada'') \<or>
     newData ''estado_solicitud'' = Some (JStr ''rechazada'')) \<and>
    newData ''uid_cliente'' = Some u \<and> ''Notificaciones'' \<notin> set (down w) \<longrightarrow>
      store (snd (notificarCambioCita oldData newData w)) ''Notificaciones'' =
        store w ''Notificaciones'' @
          [(fresh w (issued w),
            [''uid_usuario'' \<mapsto> u,
             ''titulo'' \<mapsto> titulo_cita newData,
             ''tipo'' \<mapsto> JStr str_Confirmacion,
             ''mensaje'' \<mapsto> JStr (mensaje_cita w newData),
             ''imagen'' \<mapsto> (case newData ''escenario_img_principal'' of
                               None \<Rightarrow> JNull | Some i \<Rightarrow> i),
             ''createdAt'' \<mapsto> JTimestamp (clock w)])]) \<and>
   (\<forall>n. n \<noteq> [] \<and> newData ''escenario_nombre'' = Some (JStr n) \<longrightarrow>
      titulo_cita newData = JStr n \<and>
      mensaje_cita w newData =
        ''Tu cita para '' @ n @
        (if newData ''estado_solicitud'' = Some (JStr ''aceptada'')
         then '' ha sido confirmada.'' else '' ha sido rechazada.'')) \<and>
   length (multicasts (trace (snd (notificarCambioCita oldData newData w)))) \<le>
     length (multicasts (trace w)) + 1"
proof (intro conjI impI allI)
  assume "strict_eq (newData ''estado_solicitud'') (oldData ''estado_solicitud'')"
  then show "notificarCambioCita oldData newData w = (Inr (), w)"
    by (rule notificarCambioCita_unchanged)
next
  assume "newData ''estado_solicitud'' \<noteq> Some (JStr ''aceptada'') \<and>
    newData ''estado_solicitud'' \<noteq> Some (JStr ''rechazada'')"
  then show "notificarCambioCita oldData newData w = (Inr (), w)"
    by (simp add: notificarCambioCita_other)
next
  assume a: "\<not> strict_eq (newData ''estado_solicitud'') (oldData ''estado_solicitud'') \<and>
    (newData ''estado_solicitud'' = Some (JStr ''aceptada'') \<or>
     newData ''estado_solicitud'' = Some (JStr ''rechazada'')) \<and>
    newData ''uid_cliente'' = Some u \<and> ''Notificaciones'' \<notin> set (down w)"
  then have "notificarCambioCita oldData newData w =
     (let w1 = snd (guardarNotificacion (Some u) (Some (titulo_cita newData)) str_Confirmacion
                     (mensaje_cita w newData) (newData ''escenario_img_principal'') w);
          q = Query ''Dispositivos''
                [Eq ''uid_usuario'' (Some u), Eq ''activo'' (Some (JBool True))];
          tokens = tokens_of (active_devices w u);
          n = \<lparr>title = Some (titulo_cita newData), body = mensaje_cita w newData,
               image = or_else (newData ''escenario_img_principal'') (Some (JStr []))\<rparr>
      in
      if ''Dispositivos'' \<in> set (down w) then (Inl StoreError, log q w1)
      else if tokens = [] then (Inr (), log q w1)
      else if 500 < length tokens then (Inl OtherError, log (Multicast tokens n) (log q w1))
      else (Inr (), log (Multicast tokens n) (log q w1)))"
    by (intro notificarCambioCita_run) simp_all
  with a show "store (snd (notificarCambioCita oldData newData w)) ''Notificaciones'' =
        store w ''Notificaciones'' @
          [(fresh w (issued w),
            [''uid_usuario'' \<mapsto> u,
             ''titulo'' \<mapsto> titulo_cita newData,
             ''tipo'' \<mapsto> JStr str_Confirmacion,
             ''mensaje'' \<mapsto> JStr (mensaje_cita w newData),
             ''imagen'' \<mapsto> (case newData ''escenario_img_principal'' of
                               None \<Rightarrow> JNull | Some i \<Rightarrow> i),
             ''createdAt'' \<mapsto> JTimestamp (clock w)])]"
    by (simp add: guardarNotificacion_run Let_def)
next
  fix n
  assume "n \<noteq> [] \<and> newData ''escenario_nombre'' = Some (JStr n)"
  then show "titulo_cita newData = JStr n"
    by (simp add: titulo_cita_def)
next
  fix n
  assume "n \<noteq> [] \<and> newData ''escenario_nombre'' = Some (JStr n)"
  then show "mensaje_cita w newData =
        ''Tu cita para '' @ n @
        (if newData ''estado_solicitud'' = Some (JStr ''aceptada'')
         then '' ha sido confirmada.'' else '' ha sido rechazada.'')"
    by (simp add: mensaje_cita_def titulo_cita_def text_of_def)
next
  show "length (multicasts (trace (snd (notificarCambioCita oldData newData w)))) \<le>
     length (multicasts (trace w)) + 1"
  proof (cases "\<not> strict_eq (newData ''estado_solicitud'') (oldData ''estado_solicitud'') \<and>
    (newData ''estado_solicitud'' = Some (JStr ''aceptada'') \<or>
     newData ''estado_solicitud'' = Some (JStr ''rechazada''))")
    case False
    then have "notificarCambioCita oldData newData w = (Inr (), w)"
      using notificarCambioCita_unchanged [of newData oldData w]
        notificarCambioCita_other [of newData oldData w] by blast
    then show ?thesis by simp
  next
    case True
    show ?thesis
    proof (cases "newData ''uid_cliente''")
      case None
      with True show ?thesis
        by (auto simp: notificarCambioCita_def or_else_titulo guardarNotificacion_no_uid run_defs
            query_def strict_eq_str Let_def)
    next
      case (Some u)
      with True show ?thesis
        by (simp add: notificarCambioCita_run [of newData oldData u w] guardarNotificacion_run
            Let_def)
    qed
  qed
qed

lemma cita_fields:
  "cita_espera ''estado_solicitud'' = Some (JStr ''espera'')"
  "cita_movida ''estado_solicitud'' = Some (JStr ''espera'')"
  "cita_aceptada ''estado_solicitud'' = Some (JStr ''aceptada'')"
  "cita_atendida ''estado_solicitud'' = Some (JStr ''atendida'')"
  "cita_aceptada ''uid_cliente'' = Some (JStr ''ana'')"
  "cita_aceptada ''escenario_nombre'' = Some (JStr ''Estudio'')"
  "cita_aceptada ''escenario_img_principal'' = None"
  by (simp_all add: cita_espera_def cita_movida_def cita_aceptada_def cita_atendida_def
      ex_cita_def)

lemma w_devices_fields:
  "down w_devices = []"
  "store w_devices ''Notificaciones'' = []"
  "fresh w_devices (issued w_devices) = ''auto''" "clock w_devices = 1678881600000"
  "trace w_devices = []"
  by (simp_all add: w_devices_def)

theorem notificarCambioCita_effects_witness:
  "notificarCambioCita cita_espera cita_movida w_devices = (Inr (), w_devices) \<and>
   notificarCambioCita cita_espera cita_atendida w_devices = (Inr (), w_devices) \<and>
   store (snd (notificarCambioCita cita_espera cita_aceptada w_devices)) ''Notificaciones'' =
     [(''auto'',
       [''uid_usuario'' \<mapsto> JStr ''ana'',
        ''titulo'' \<mapsto> JStr ''Estudio'',
        ''tipo'' \<mapsto> JStr str_Confirmacion,
        ''mensaje'' \<mapsto> JStr ''Tu cita para Estudio ha sido confirmada.'',
        ''imagen'' \<mapsto> JNull,
        ''createdAt'' \<mapsto> JTimestamp 1678881600000])] \<and>
   length (multicasts (trace (snd (notificarCambioCita cita_espera cita_aceptada w_devices)))) \<le> 1"
proof -
  note t1 = notificarCambioCita_effects [where newData = cita_movida and oldData = cita_espera
      and u = "JStr ''ana''" and w = w_devices]
  note t2 = notificarCambioCita_effects [where newData = cita_atendida and oldData = cita_espera
      and u = "JStr ''ana''" and w = w_devices]
  note t3 = notificarCambioCita_effects [where newData = cita_aceptada and oldData = cita_espera
      and u = "JStr ''ana''" and w = w_devices]
  have a: "notificarCambioCita cita_espera cita_movida w_devices = (Inr (), w_devices)"
    using t1 [THEN conjunct1] by (simp add: cita_fields)
  have b: "notificarCambioCita cita_espera cita_atendida w_devices = (Inr (), w_devices)"
    using t2 [THEN conjunct2, THEN conjunct1] by (simp add: cita_fields)
  have n: "titulo_cita cita_aceptada = JStr ''Estudio''"
    "mensaje_cita w_devices cita_aceptada = ''Tu cita para Estudio ha sido confirmada.''"
    using t3 [THEN conjunct2, THEN conjunct2, THEN conjunct2, THEN conjunct1, THEN spec,
        of "''Estudio''"]
    by (simp_all add: cita_fields)
  have c: "store (snd (notificarCambioCita cita_espera cita_aceptada w_devices))
        ''Notificaciones'' =
     [(''auto'',
       [''uid_usuario'' \<mapsto> JStr ''ana'',
        ''titulo'' \<mapsto> JStr ''Estudio'',
        ''tipo'' \<mapsto> JStr str_Confirmacion,
        ''mensaje'' \<mapsto> JStr ''Tu cita para Estudio ha sido confirmada.'',
        ''imagen'' \<mapsto> JNull,
        ''createdAt'' \<mapsto> JTimestamp 1678881600000])]"
    using t3 [THEN conjunct2, THEN conjunct2, THEN conjunct1]
    by (simp add: cita_fields n w_devices_fields)
  have d: "length (multicasts (trace (snd (notificarCambioCita cita_espera cita_aceptada
        w_devices)))) \<le> 1"
    using t3 [THEN conjunct2, THEN conjunct2, THEN conjunct2, THEN conjunct2]
    by (simp add: w_devices_fields)
  show ?thesis
    using a b c d by simp
qed

subsection \<open>An appointment moved by an administrator\<close>

lemma actualizarCita_admin_run:
  assumes "is_admin w uid"
    and "data ''id'' = Some (JStr i)" and "i \<noteq> []" and "''Citas'' \<notin> set (down w)"
    and "map_of (store w ''Citas'') i = Some cita"
  shows "actualizarCita data (Some uid) w =
     (Inr (),
      log (Update ''Citas'' i)
        ((log (Get ''Citas'' i) (log (admin_query uid) w))
         \<lparr>store := (store w)(''Citas'' :=
             merge_into i ((data(''id'' := None))(''updatedAt'' \<mapsto> JTimestamp (clock w)))
               (store w ''Citas''))\<rparr>))"
proof -
  from assms(1) have u: "uid \<noteq> []"
    by (simp add: is_admin_def)
  show ?thesis
    using assms u
    by (simp add: actualizarCita_def esAdministrador_run run_defs get_doc_def doc_id_def
        update_doc_def Let_def)
qed

lemma w_before_move_facts:
  "is_admin w_before_move ''root''" "''Citas'' \<notin> set (down w_before_move)"
  "map_of (store w_before_move ''Citas'') ''c1'' =
     Some (snd (ex_cita ''c1'' ''ana'' ''espera'' 1679508000000 1678795200000))"
  "data_move ''id'' = Some (JStr ''c1'')"
  by (simp_all add: w_before_move_def is_admin_def admin_records_def ex_admin_def ex_cita_def
      data_move_def)

lemma w_moved_eq:
  "actualizarCita data_move (Some ''root'') w_before_move =
     (Inr (),
      log (Update ''Citas'' ''c1'')
        ((log (Get ''Citas'' ''c1'') (log (admin_query ''root'') w_before_move))
         \<lparr>store := (store w_before_move)(''Citas'' :=
             merge_into ''c1''
               ((data_move(''id'' := None))(''updatedAt'' \<mapsto> JTimestamp (clock w_before_move)))
               (store w_before_move ''Citas''))\<rparr>))"
  by (rule actualizarCita_admin_run
      [where data = data_move and i = "''c1''", OF w_before_move_facts(1,4) _ w_before_move_facts(2,3)])
     simp

lemma w_moved_fields:
  "down w_moved = []" "clock w_moved = 1678881600000" "tz w_moved = 0"
  "issued w_moved = 0" "fresh w_moved 0 = ''auto''" "date_parse w_moved = ex_parse"
  "store w_moved ''Citas'' =
     [(''c1'', snd (ex_cita ''c1'' ''ana'' ''espera'' 1679508000000 1678795200000) ++
               (data_move(''id'' := None))(''updatedAt'' \<mapsto> JTimestamp 1678881600000))]"
  by (simp_all add: w_moved_def w_moved_eq)
     (simp_all add: w_before_move_def merge_into_def ex_cita_def)

lemmas moved_cita = map_add_def ex_cita_def data_move_def

text \<open>
  C3 at an input where the gate misses an appointment of that day. Root, an
  administrator, moves Ana's appointment \<^verbatim>\<open>c1\<close> to 2023-03-20 through
  \<^verbatim>\<open>actualizarCita\<close>, whose update merges the payload's \<^verbatim>\<open>fecha\<close> as it came: a
  string. The day query of \<^verbatim>\<open>crearCita\<close> compares timestamps and does not see
  \<^verbatim>\<open>c1\<close>, so Ana's request for 2023-03-20 passes both gates and is stored: Ana holds
  two appointments on that day. \<^verbatim>\<open>crearCita\<close> itself stores
  \<^verbatim>\<open>Timestamp.fromDate\<close> of the date; \<^verbatim>\<open>actualizarCita\<close> does not.
\<close>

theorem crearCita_misses_string_date:
  "fst (actualizarCita data_move (Some ''root'') w_before_move) = Inr () \<and>
   map (\<lambda>d. (fst d, snd d ''uid_cliente'', snd d ''fecha'')) (store w_moved ''Citas'') =
     [(''c1'', Some (JStr ''ana''), Some (JStr ''2023-03-20T10:00:00Z''))] \<and>
   map fst (dated_same_day w_moved ''ana'' (Some 1679306400000)) = [''c1''] \<and>
   stamped_same_day w_moved ''ana'' (Some 1679306400000) = [] \<and>
   fst (crearCita data_ok (Some ''ana'') w_moved) = Inr ''auto'' \<and>
   map (\<lambda>d. (fst d, snd d ''uid_cliente'', snd d ''fecha''))
     (store (snd (crearCita data_ok (Some ''ana'') w_moved)) ''Citas'') =
     [(''c1'', Some (JStr ''ana''), Some (JStr ''2023-03-20T10:00:00Z'')),
      (''auto'', Some (JStr ''ana''), Some (JTimestamp 1679306400000))]"
proof -
  have a: "fst (actualizarCita data_move (Some ''root'') w_before_move) = Inr ()"
    by (simp add: w_moved_eq)
  have b: "map (\<lambda>d. (fst d, snd d ''uid_cliente'', snd d ''fecha'')) (store w_moved ''Citas'') =
     [(''c1'', Some (JStr ''ana''), Some (JStr ''2023-03-20T10:00:00Z''))]"
    by (simp add: w_moved_fields moved_cita)
  have p: "ex_parse ''2023-03-20T10:00:00Z'' = Some 1679306400000"
    by (simp add: ex_parse_def)
  have c: "map fst (dated_same_day w_moved ''ana'' (Some 1679306400000)) = [''c1'']"
    by (simp add: dated_same_day_def date_of_def w_moved_fields moved_cita
        ex_startOfDay ex_endOfDay p)
  have d: "stamped_same_day w_moved ''ana'' (Some 1679306400000) = []"
    by (simp add: stamped_same_day_def w_moved_fields moved_cita ex_startOfDay ex_endOfDay)
  have 1: "data_ok ''fecha'' = Some (JStr ''2023-03-20T10:00:00Z'')"
    by (simp add: data_ok_def)
  have r: "rejections_from w_moved ''ana'' 1676462400000 = []"
    by (simp add: rejections_from_def w_moved_fields moved_cita)
  have k: "clock_ok w_moved" "day_ok w_moved (Some 1679306400000)"
    by (simp_all add: clock_ok_def day_ok_def w_moved_fields ex_subMonths ex_startOfDay
        ex_endOfDay storable_date_def)
  have e: "crearCita data_ok (Some ''ana'') w_moved =
      (Inr ''auto'',
       log (Add ''Citas'' ''auto'')
         (log (Query ''Citas'' (gate2 w_moved ''ana'' (Some 1679306400000)))
            (log (Query ''Citas'' (gate1 w_moved ''ana'')) w_moved)
          \<lparr>store := (store w_moved)(''Citas'' := store w_moved ''Citas'' @
              [(''auto'', nuevaCita data_ok ''ana'' (JTimestamp 1679306400000)
                          (JTimestamp 1678881600000))]),
            issued := Suc 0\<rparr>))"
    using d r k
    by (simp add: crearCita_run [where data = data_ok and s = "''2023-03-20T10:00:00Z''", OF 1]
        w_moved_fields(1-6) p ex_subMonths storable_date_def)
  have f: "map (\<lambda>d. (fst d, snd d ''uid_cliente'', snd d ''fecha''))
     (store (snd (crearCita data_ok (Some ''ana'') w_moved)) ''Citas'') =
     [(''c1'', Some (JStr ''ana''), Some (JStr ''2023-03-20T10:00:00Z'')),
      (''auto'', Some (JStr ''ana''), Some (JTimestamp 1679306400000))]"
    using b by (simp add: e nuevaCita_def)
  show ?thesis
    using a b c d f by (simp add: e)
qed

subsection \<open>Batches\<close>

text \<open>The loop of \<^verbatim>\<open>notificarNuevoEscenario\<close> never passes more than 500 tokens to
  the gateway's client in one call, and no call of the loop is refused.\<close>

lemma send_batch_ok:
  "i < length tokens \<Longrightarrow>
   sendEachForMulticast (take 500 (drop i tokens)) payload w =
     (Inr (), log (Multicast (take 500 (drop i tokens)) payload) w)"
  by (simp add: sendEachForMulticast_def)

lemma send_batches_bound:
  "\<forall>ts\<in>set (multicasts (trace w)). length ts \<le> 500 \<Longrightarrow>
   fst (send_batches tokens payload i w) = Inr () \<and>
   (\<forall>ts\<in>set (multicasts (trace (snd (send_batches tokens payload i w)))). length ts \<le> 500)"
proof (induction tokens payload i w rule: send_batches.induct)
  case (1 tokens payload i w)
  show ?case
  proof (cases "i < length tokens")
    case False
    with "1.prems" show ?thesis
      by (subst (1 2) send_batches.simps) simp
  next
    case True
    note s = send_batch_ok [OF True, of payload w]
    have "\<forall>ts\<in>set (multicasts (trace (log (Multicast (take 500 (drop i tokens)) payload) w))).
        length ts \<le> 500"
      using "1.prems" by simp
    with "1.IH" [OF True s [symmetric] refl] True s show ?thesis
      by (subst (1 2) send_batches.simps) simp
  qed
qed

lemma notificarNuevoEscenario_batched:
  assumes "\<forall>ts\<in>set (multicasts (trace w)). length ts \<le> 500"
  shows "\<forall>ts\<in>set (multicasts (trace (snd (notificarNuevoEscenario escenario w)))).
           length ts \<le> 500"
proof (cases "''Dispositivos'' \<in> set (down w)")
  case True
  with assms show ?thesis
    by (simp add: notificarNuevoEscenario_def run_defs query_def)
next
  case False
  then obtain tokens payload where
    r: "notificarNuevoEscenario escenario w =
          send_batches tokens payload 0
            (log (Query ''Dispositivos'' [Eq ''activo'' (Some (JBool True))]) w)"
    by (simp add: notificarNuevoEscenario_def run_defs query_def Let_def)
  have "\<forall>ts\<in>set (multicasts (trace
          (log (Query ''Dispositivos'' [Eq ''activo'' (Some (JBool True))]) w))). length ts \<le> 500"
    using assms by simp
  then show ?thesis
    unfolding r by (rule send_batches_bound [THEN conjunct2])
qed

lemma ex_devices_active: "active_devices (ex_world a c (ex_devices n)) (JStr ''ana'') = ex_devices n"
  by (simp add: active_devices_def ex_devices_def ex_device_def filter_map o_def)

lemma ex_devices_all_active:
  "matching [Eq ''activo'' (Some (JBool True))] (ex_devices n) = ex_devices n"
  by (simp add: matching_def ex_devices_def ex_device_def filter_map o_def)

lemma ex_devices_tokens: "length (tokens_of (ex_devices n)) = n"
  by (simp add: tokens_of_def ex_devices_def ex_device_def map_filter_def filter_map o_def)

lemma send_batches_501:
  assumes "length tokens = 501"
  shows "fst (send_batches tokens payload 0 w) = Inr () \<and>
         map length (multicasts (trace (snd (send_batches tokens payload 0 w)))) =
           map length (multicasts (trace w)) @ [500, 1]"
proof -
  from assms have ne: "tokens \<noteq> []" "take 500 tokens \<noteq> []"
    by auto
  have 1: "send_batches tokens payload 1000 w' = (Inr (), w')" for w'
    using assms by (subst send_batches.simps) simp
  have 2: "send_batches tokens payload 500 w' =
      (Inr (), log (Multicast (take 500 (drop 500 tokens)) payload) w')" for w'
    using assms by (subst send_batches.simps) (simp add: sendEachForMulticast_def 1)
  have 3: "send_batches tokens payload 0 w =
      (Inr (), log (Multicast (take 500 (drop 500 tokens)) payload)
                 (log (Multicast (take 500 tokens) payload) w))"
    using assms ne by (subst send_batches.simps) (simp add: sendEachForMulticast_def 2)
  show ?thesis
    using assms by (simp add: 3)
qed

text \<open>
  C8 at an input where a path hands the gateway's client more than 500 tokens. Ana has
  501 active devices and her appointment is accepted: \<^verbatim>\<open>notificarCambioCita\<close> writes
  the record and makes one call with all 501 tokens, which the client refuses, so the
  handler throws and no device is notified. On the same devices the loop of
  \<^verbatim>\<open>notificarNuevoEscenario\<close> makes two calls, of 500 tokens and of 1.
\<close>

theorem notificarCambioCita_unbatched:
  "length (tokens_of (active_devices w_many (JStr ''ana''))) = 501 \<and>
   fst (notificarCambioCita cita_espera cita_aceptada w_many) = Inl OtherError \<and>
   map length (multicasts (trace (snd (notificarCambioCita cita_espera cita_aceptada w_many)))) =
     [501] \<and>
   fst (notificarNuevoEscenario Map.empty w_many) = Inr () \<and>
   map length (multicasts (trace (snd (notificarNuevoEscenario Map.empty w_many)))) = [500, 1]"
proof -
  have t: "length (tokens_of (active_devices w_many (JStr ''ana''))) = 501"
    by (simp add: w_many_def ex_devices_active ex_devices_tokens)
  then have ne: "tokens_of (active_devices w_many (JStr ''ana'')) \<noteq> []"
    by auto
  have f: "down w_many = []" "trace w_many = []"
    by (simp_all add: w_many_def)
  have a: "fst (notificarCambioCita cita_espera cita_aceptada w_many) = Inl OtherError"
    "map length (multicasts (trace (snd (notificarCambioCita cita_espera cita_aceptada w_many)))) =
     [501]"
    using t ne
    by (simp_all add: notificarCambioCita_run [where u = "JStr ''ana''"] cita_fields f
        guardarNotificacion_run Let_def)
  obtain payload where
    r: "notificarNuevoEscenario Map.empty w_many =
          send_batches (tokens_of (ex_devices 501)) payload 0
            (log (Query ''Dispositivos'' [Eq ''activo'' (Some (JBool True))]) w_many)"
    by (simp add: notificarNuevoEscenario_def run_defs query_def Let_def f)
       (simp add: w_many_def ex_devices_all_active)
  have b: "fst (notificarNuevoEscenario Map.empty w_many) = Inr ()"
    "map length (multicasts (trace (snd (notificarNuevoEscenario Map.empty w_many)))) = [500, 1]"
    unfolding r
    using send_batches_501 [OF ex_devices_tokens [of 501], of payload
        "log (Query ''Dispositivos'' [Eq ''activo'' (Some (JBool True))]) w_many"]
    by (simp_all add: f)
  show ?thesis
    using t a b by simp
qed

subsection \<open>The reminder sweep\<close>

lemma matching_user_devices:
  "matching [Eq ''uid_usuario'' (Some u)] (store w ''Dispositivos'') = user_devices w u"
  by (simp add: matching_def user_devices_def)

lemma matching_sweep: "matching (sweep_query w) (store w ''Citas'') = upcoming w"
  unfolding matching_def sweep_query_def upcoming_def
  by (rule filter_cong) (auto split: option.split jsval.split)

lemma text_of_log [simp]: "text_of (log e w) v = text_of w v"
  by (simp add: text_of_def split: option.split jsval.split)

text \<open>The body of the loop, for an appointment that has an owner: the owner's devices
  are read whether active or not; with no token nothing else happens, otherwise one call
  is made and, unless it is refused, one record is attempted.\<close>

lemma recordar_cita_run:
  assumes "cita ''uid_cliente'' = Some u"
  shows "recordar_cita cita w =
     (let q = Query ''Dispositivos'' [Eq ''uid_usuario'' (Some u)];
          tokens = tokens_of (user_devices w u);
          bodyMsg = str_Recuerda @ text_of w (cita ''escenario_nombre'');
          n = \<lparr>title = Some (JStr ''Recordatorio de Cita''), body = bodyMsg, image = None\<rparr>
      in
      if ''Dispositivos'' \<in> set (down w) then (Inl StoreError, log q w)
      else if tokens = [] then (Inr (), log q w)
      else if 500 < length tokens then (Inl OtherError, log (Multicast tokens n) (log q w))
      else guardarNotificacion (Some u) (Some (JStr ''Recordatorio'')) ''recordatorio'' bodyMsg
             None (log (Multicast tokens n) (log q w)))"
  using assms
  by (simp add: recordar_cita_def run_defs query_def matching_user_devices
      sendEachForMulticast_def Let_def)

text \<open>The sweep selects the accepted appointments dated from the start of today to the
  end of the day two days ahead, and runs the body over them.\<close>

lemma recordatorioDiario_run:
  assumes "list_all cond_ok (sweep_query w)" and "''Citas'' \<notin> set (down w)"
  shows "recordatorioDiario w =
           recordar_citas (upcoming w) (log (Query ''Citas'' (sweep_query w)) w)"
  using assms
  by (simp add: recordatorioDiario_def run_defs query_def matching_sweep [symmetric]
      sweep_query_def)

lemma ex_sweep_days:
  "startOfDay 0 (Some 1678881600000) = Some 1678838400000"
  "addDays (Some 1678838400000) 2 = Some 1679011200000"
  "endOfDay 0 (Some 1679011200000) = Some 1679097599999"
  by (simp_all add: startOfDay_def endOfDay_def addDays_def time_clip_def)

text \<open>
  C9 at an input where a reminder goes to a device that is not active. Ana has an
  accepted appointment for tomorrow and one device, registered as inactive: she has no
  active device token, and yet the sweep sends one reminder to that device's token and
  appends one notification record. The query of \<^verbatim>\<open>recordatorioDiario\<close> asks for the
  owner's devices without the condition \<^verbatim>\<open>activo == true\<close> that
  \<^verbatim>\<open>notificarCambioCita\<close> and \<^verbatim>\<open>notificarNuevoEscenario\<close> put.
\<close>

theorem recordatorioDiario_inactive_device:
  "map fst (upcoming w_inactive) = [''c1''] \<and>
   tokens_of (active_devices w_inactive (JStr ''ana'')) = [] \<and>
   fst (recordatorioDiario w_inactive) = Inr () \<and>
   multicasts (trace (snd (recordatorioDiario w_inactive))) = [[JStr ''t3'']] \<and>
   map (\<lambda>d. (snd d ''uid_usuario'', snd d ''tipo''))
     (store (snd (recordatorioDiario w_inactive)) ''Notificaciones'') =
     [(Some (JStr ''ana''), Some (JStr ''recordatorio''))]"
proof -
  have f: "down w_inactive = []" "tz w_inactive = 0" "clock w_inactive = 1678881600000"
    "trace w_inactive = []" "store w_inactive ''Notificaciones'' = []"
    by (simp_all add: w_inactive_def)
  have ok: "list_all cond_ok (sweep_query w_inactive)"
    by (simp add: sweep_query_def f ex_sweep_days storable_date_def)
  have u: "upcoming w_inactive =
      [ex_cita ''c1'' ''ana'' ''aceptada'' 1678968000000 1678795200000]"
    by (simp add: upcoming_def f ex_sweep_days) (simp add: w_inactive_def ex_cita_def)
  have a: "tokens_of (active_devices w_inactive (JStr ''ana'')) = []"
    by (simp add: active_devices_def w_inactive_def ex_device_def tokens_of_def map_filter_def)
  have t: "tokens_of (user_devices w_inactive (JStr ''ana'')) = [JStr ''t3'']"
    by (simp add: user_devices_def w_inactive_def ex_device_def tokens_of_def map_filter_def)
  have c: "snd (ex_cita ''c1'' ''ana'' ''aceptada'' 1678968000000 1678795200000) ''uid_cliente'' =
      Some (JStr ''ana'')"
    by (simp add: ex_cita_def)
  have r: "recordatorioDiario w_inactive =
      recordar_citas [ex_cita ''c1'' ''ana'' ''aceptada'' 1678968000000 1678795200000]
        (log (Query ''Citas'' (sweep_query w_inactive)) w_inactive)"
    using recordatorioDiario_run [of w_inactive] ok by (simp add: f u)
  have e: "fst (recordatorioDiario w_inactive) = Inr ()"
    "multicasts (trace (snd (recordatorioDiario w_inactive))) = [[JStr ''t3'']]"
    "map (\<lambda>d. (snd d ''uid_usuario'', snd d ''tipo''))
       (store (snd (recordatorioDiario w_inactive)) ''Notificaciones'') =
     [(Some (JStr ''ana''), Some (JStr ''recordatorio''))]"
    by (simp_all add: r t f guardarNotificacion_run Let_def
        recordar_cita_run [where cita = "snd (ex_cita ''c1'' ''ana'' ''aceptada'' 1678968000000
          1678795200000)" and u = "JStr ''ana''", OF c])
  show ?thesis
    using a e by (simp add: u ex_cita_def)
qed

subsection \<open>Listing appointments\<close>

lemma seq_InrD:
  assumes "seq m f w = (Inr y, w')"
  obtains x w1 where "m w = (Inr x, w1)" and "f x w1 = (Inr y, w')"
  using assms by (auto simp: seq_def split: prod.splits sum.splits)

lemma try_catch_internal_InrD:
  "try_catch m rethrow_internal w = (Inr y, w') \<Longrightarrow> m w = (Inr y, w')"
  by (auto simp: try_catch_def rethrow_internal_def throw_def split: prod.splits sum.splits)

lemma limit_of_keeps: "limit_of v w = (Inr lim, w1) \<Longrightarrow> w1 = w"
  by (auto simp: limit_of_def ret_def throw_def split: option.splits jsval.splits if_splits)

lemma check_conds_keeps: "check_conds cs w = (Inr u, w1) \<Longrightarrow> w1 = w"
  by (auto simp: check_conds_def ret_def throw_def split: if_splits)

lemma get_doc_keeps: "get_doc c v w = (Inr r, w1) \<Longrightarrow> store w1 = store w"
  by (auto simp: get_doc_def split: option.splits if_splits)

lemma cursor_keeps:
  assumes "(if truthy v
            then seq (get_doc ''Citas'' v) (\<lambda>(i, lastDoc).
                   case lastDoc of
                     None \<Rightarrow> ret None
                   | Some d \<Rightarrow>
                       if d ''fecha'' = None then throw OtherError else ret (Some (i, d)))
            else ret None) w = (Inr cursor, w1)"
  shows "store w1 = store w"
proof (cases "truthy v")
  case False
  with assms show ?thesis by (simp add: ret_def)
next
  case True
  with assms obtain r w2 where g: "get_doc ''Citas'' v w = (Inr r, w2)"
    and k: "(case r of (i, lastDoc) \<Rightarrow>
               case lastDoc of
                 None \<Rightarrow> ret None
               | Some d \<Rightarrow>
                   if d ''fecha'' = None then throw OtherError else ret (Some (i, d))) w2 =
            (Inr cursor, w1)"
    by (auto elim: seq_InrD)
  from k have "w1 = w2"
    by (auto simp: ret_def throw_def split: prod.splits option.splits if_splits)
  with get_doc_keeps [OF g] show ?thesis by simp
qed

lemma run_query_subset:
  "run_query c cs f lim cursor w = (Inr snap, w1) \<Longrightarrow> set snap \<subseteq> set (matching cs (store w c))"
  by (auto simp: run_query_def limit_to_def startAfter_def orderBy_def
      split: if_splits option.splits dest: in_set_takeD)

lemma matching_client:
  "d \<in> set (matching [Eq ''uid_cliente'' (Some (JStr uid)),
                       Neq ''estado_solicitud'' (JStr ''rechazada'')] ds) \<Longrightarrow>
   d \<in> set ds \<and> snd d ''uid_cliente'' = Some (JStr uid) \<and>
   snd d ''estado_solicitud'' \<noteq> Some (JStr ''rechazada'')"
  by (simp add: matching_def)

text \<open>
  C10. Whenever \<^verbatim>\<open>consultarCitas\<close> returns a list to an authenticated caller whom
  \<^verbatim>\<open>esAdministrador\<close> does not find to be an administrator, every item of the list is
  a stored appointment (with its identifier) whose \<^verbatim>\<open>uid_cliente\<close> is the caller and
  whose \<^verbatim>\<open>estado_solicitud\<close> is not \<^verbatim>\<open>rechazada\<close>, whatever the request holds.
\<close>

theorem consultarCitas_own_not_rejected:
  assumes "consultarCitas data (Some uid) w = (Inr items, w')"
    and "\<not> is_admin w uid"
  shows "\<forall>item\<in>set items.
           item ''uid_cliente'' = Some (JStr uid) \<and>
           item ''estado_solicitud'' \<noteq> Some (JStr ''rechazada'') \<and>
           (\<exists>d\<in>set (store w ''Citas''). item = [''id'' \<mapsto> JStr (fst d)] ++ snd d)"
proof -
  have u: "uid \<noteq> []"
  proof
    assume "uid = []"
    then have "consultarCitas data (Some uid) w = (Inl (HttpsError Internal), w)"
      by (simp add: consultarCitas_def try_catch_def throw_def rethrow_internal_def)
    with assms(1) show False
      by simp
  qed
  from assms(1) have "seq (esAdministrador (Some uid)) (\<lambda>isAdmin.
            seq (if isAdmin
                 then (if truthy (data ''fecha'')
                       then get_world (\<lambda>w.
                              [Ge ''fecha'' (startOfDay (tz w) (new_Date w (data ''fecha''))),
                               Le ''fecha'' (endOfDay (tz w) (new_Date w (data ''fecha'')))])
                       else if truthy (data ''uid_cliente_consulta'')
                       then ret [Eq ''uid_cliente'' (data ''uid_cliente_consulta'')]
                       else ret [])
                 else ret [Eq ''uid_cliente'' (Some (JStr uid)),
                           Neq ''estado_solicitud'' (JStr ''rechazada'')]) (\<lambda>conds.
            seq (check_conds conds) (\<lambda>u.
            seq (limit_of (data ''limit'')) (\<lambda>lim.
            seq (if truthy (data ''lastDocId'')
                 then seq (get_doc ''Citas'' (data ''lastDocId'')) (\<lambda>(i, lastDoc).
                        case lastDoc of
                          None \<Rightarrow> ret None
                        | Some d \<Rightarrow>
                            if d ''fecha'' = None then throw OtherError else ret (Some (i, d)))
                 else ret None) (\<lambda>cursor.
            seq (run_query ''Citas'' conds ''fecha'' lim cursor) (\<lambda>snap.
            ret (map (\<lambda>d. [''id'' \<mapsto> JStr (fst d)] ++ snd d) snap))))))) w = (Inr items, w')"
  proof -
    from assms(1) have "(case Some uid of
          None \<Rightarrow> throw OtherError
        | Some uid \<Rightarrow>
            if \<not> truthy (Some (JStr uid)) then throw (HttpsError Unauthenticated)
            else
            seq (esAdministrador (Some uid)) (\<lambda>isAdmin.
            seq (if isAdmin
                 then (if truthy (data ''fecha'')
                       then get_world (\<lambda>w.
                              [Ge ''fecha'' (startOfDay (tz w) (new_Date w (data ''fecha''))),
                               Le ''fecha'' (endOfDay (tz w) (new_Date w (data ''fecha'')))])
                       else if truthy (data ''uid_cliente_consulta'')
                       then ret [Eq ''uid_cliente'' (data ''uid_cliente_consulta'')]
                       else ret [])
                 else ret [Eq ''uid_cliente'' (Some (JStr uid)),
                           Neq ''estado_solicitud'' (JStr ''rechazada'')]) (\<lambda>conds.
            seq (check_conds conds) (\<lambda>u.
            seq (limit_of (data ''limit'')) (\<lambda>lim.
            seq (if truthy (data ''lastDocId'')
                 then seq (get_doc ''Citas'' (data ''lastDocId'')) (\<lambda>(i, lastDoc).
                        case lastDoc of
                          None \<Rightarrow> ret None
                        | Some d \<Rightarrow>
                            if d ''fecha'' = None then throw OtherError else ret (Some (i, d)))
                 else ret None) (\<lambda>cursor.
            seq (run_query ''Citas'' conds ''fecha'' lim cursor) (\<lambda>snap.
            ret (map (\<lambda>d. [''id'' \<mapsto> JStr (fst d)] ++ snd d) snap)))))))) w = (Inr items, w')"
      unfolding consultarCitas_def by (rule try_catch_internal_InrD)
    then show ?thesis
      using u by (simp only: option.case truthy.simps not_not if_False)
  qed
  then obtain isAdmin w1 where
    1: "esAdministrador (Some uid) w = (Inr isAdmin, w1)" and
    2: "seq (if isAdmin
                 then (if truthy (data ''fecha'')
                       then get_world (\<lambda>w.
                              [Ge ''fecha'' (startOfDay (tz w) (new_Date w (data ''fecha''))),
                               Le ''fecha'' (endOfDay (tz w) (new_Date w (data ''fecha'')))])
                       else if truthy (data ''uid_cliente_consulta'')
                       then ret [Eq ''uid_cliente'' (data ''uid_cliente_consulta'')]
                       else ret [])
                 else ret [Eq ''uid_cliente'' (Some (JStr uid)),
                           Neq ''estado_solicitud'' (JStr ''rechazada'')]) (\<lambda>conds.
            seq (check_conds conds) (\<lambda>u.
            seq (limit_of (data ''limit'')) (\<lambda>lim.
            seq (if truthy (data ''lastDocId'')
                 then seq (get_doc ''Citas'' (data ''lastDocId'')) (\<lambda>(i, lastDoc).
                        case lastDoc of
                          None \<Rightarrow> ret None
                        | Some d \<Rightarrow>
                            if d ''fecha'' = None then throw OtherError else ret (Some (i, d)))
                 else ret None) (\<lambda>cursor.
            seq (run_query ''Citas'' conds ''fecha'' lim cursor) (\<lambda>snap.
            ret (map (\<lambda>d. [''id'' \<mapsto> JStr (fst d)] ++ snd d) snap)))))) w1 = (Inr items, w')"
    by (rule seq_InrD)
  from 1 assms(2) u have a: "isAdmin = False" and s1: "store w1 = store w"
    by (auto simp: esAdministrador_run)
  from 2 obtain conds w2 where
    3: "ret [Eq ''uid_cliente'' (Some (JStr uid)),
             Neq ''estado_solicitud'' (JStr ''rechazada'')] w1 = (Inr conds, w2)" and
    4: "seq (check_conds conds) (\<lambda>u.
            seq (limit_of (data ''limit'')) (\<lambda>lim.
            seq (if truthy (data ''lastDocId'')
                 then seq (get_doc ''Citas'' (data ''lastDocId'')) (\<lambda>(i, lastDoc).
                        case lastDoc of
                          None \<Rightarrow> ret None
                        | Some d \<Rightarrow>
                            if d ''fecha'' = None then throw OtherError else ret (Some (i, d)))
                 else ret None) (\<lambda>cursor.
            seq (run_query ''Citas'' conds ''fecha'' lim cursor) (\<lambda>snap.
            ret (map (\<lambda>d. [''id'' \<mapsto> JStr (fst d)] ++ snd d) snap))))) w2 = (Inr items, w')"
    unfolding a if_False by (rule seq_InrD)
  from 3 have c: "conds = [Eq ''uid_cliente'' (Some (JStr uid)),
                           Neq ''estado_solicitud'' (JStr ''rechazada'')]"
    and s2: "w2 = w1"
    by (simp_all add: ret_def)
  from 4 obtain x w3 where
    5: "check_conds conds w2 = (Inr x, w3)" and
    6: "seq (limit_of (data ''limit'')) (\<lambda>lim.
            seq (if truthy (data ''lastDocId'')
                 then seq (get_doc ''Citas'' (data ''lastDocId'')) (\<lambda>(i, lastDoc).
                        case lastDoc of
                          None \<Rightarrow> ret None
                        | Some d \<Rightarrow>
                            if d ''fecha'' = None then throw OtherError else ret (Some (i, d)))
                 else ret None) (\<lambda>cursor.
            seq (run_query ''Citas'' conds ''fecha'' lim cursor) (\<lambda>snap.
            ret (map (\<lambda>d. [''id'' \<mapsto> JStr (fst d)] ++ snd d) snap)))) w3 = (Inr items, w')"
    by (rule seq_InrD)
  from 6 obtain lim w4 where
    7: "limit_of (data ''limit'') w3 = (Inr lim, w4)" and
    8: "seq (if truthy (data ''lastDocId'')
                 then seq (get_doc ''Citas'' (data ''lastDocId'')) (\<lambda>(i, lastDoc).
                        case lastDoc of
                          None \<Rightarrow> ret None
                        | Some d \<Rightarrow>
                            if d ''fecha'' = None then throw OtherError else ret (Some (i, d)))
                 else ret None) (\<lambda>cursor.
            seq (run_query ''Citas'' conds ''fecha'' lim cursor) (\<lambda>snap.
            ret (map (\<lambda>d. [''id'' \<mapsto> JStr (fst d)] ++ snd d) snap))) w4 = (Inr items, w')"
    by (rule seq_InrD)
  from 8 obtain cursor w5 where
    9: "(if truthy (data ''lastDocId'')
                 then seq (get_doc ''Citas'' (data ''lastDocId'')) (\<lambda>(i, lastDoc).
                        case lastDoc of
                          None \<Rightarrow> ret None
                        | Some d \<Rightarrow>
                            if d ''fecha'' = None then throw OtherError else ret (Some (i, d)))
                 else ret None) w4 = (Inr cursor, w5)" and
    10: "seq (run_query ''Citas'' conds ''fecha'' lim cursor) (\<lambda>snap.
            ret (map (\<lambda>d. [''id'' \<mapsto> JStr (fst d)] ++ snd d) snap)) w5 = (Inr items, w')"
    by (rule seq_InrD)
  from 10 obtain snap w6 where
    11: "run_query ''Citas'' conds ''fecha'' lim cursor w5 = (Inr snap, w6)" and
    12: "ret (map (\<lambda>d. [''id'' \<mapsto> JStr (fst d)] ++ snd d) snap) w6 = (Inr items, w')"
    by (rule seq_InrD)
  have st: "store w5 = store w"
    using cursor_keeps [OF 9] limit_of_keeps [OF 7] check_conds_keeps [OF 5] s2 s1 by simp
  from run_query_subset [OF 11] have sub: "set snap \<subseteq> set (matching conds (store w ''Citas''))"
    by (simp add: st)
  from 12 have items: "items = map (\<lambda>d. [''id'' \<mapsto> JStr (fst d)] ++ snd d) snap"
    by (simp add: ret_def)
  show ?thesis
  proof
    fix item
    assume "item \<in> set items"
    then obtain d where d: "d \<in> set snap" and i: "item = [''id'' \<mapsto> JStr (fst d)] ++ snd d"
      by (auto simp: items)
    from d sub have "d \<in> set (matching conds (store w ''Citas''))"
      by blast
    then have m: "d \<in> set (store w ''Citas'')" "snd d ''uid_cliente'' = Some (JStr uid)"
      "snd d ''estado_solicitud'' \<noteq> Some (JStr ''rechazada'')"
      unfolding c by (auto dest: matching_client)
    have k: "item ''uid_cliente'' = snd d ''uid_cliente''"
      "item ''estado_solicitud'' = snd d ''estado_solicitud''"
      by (simp_all add: i map_add_def split: option.split)
    show "item ''uid_cliente'' = Some (JStr uid) \<and>
           item ''estado_solicitud'' \<noteq> Some (JStr ''rechazada'') \<and>
           (\<exists>d\<in>set (store w ''Citas''). item = [''id'' \<mapsto> JStr (fst d)] ++ snd d)"
      using m k i by auto
  qed
qed

theorem consultarCitas_own_not_rejected_witness:
  "fst (consultarCitas data_listing (Some ''ana'') w_listing) =
     Inr [[''id'' \<mapsto> JStr ''c1''] ++
          snd (ex_cita ''c1'' ''ana'' ''espera'' 1679335200000 1678795200000)] \<and>
   ([''id'' \<mapsto> JStr ''c1''] ++
      snd (ex_cita ''c1'' ''ana'' ''espera'' 1679335200000 1678795200000)) ''uid_cliente'' =
     Some (JStr ''ana'') \<and>
   ([''id'' \<mapsto> JStr ''c1''] ++
      snd (ex_cita ''c1'' ''ana'' ''espera'' 1679335200000 1678795200000)) ''estado_solicitud'' \<noteq>
     Some (JStr ''rechazada'')"
proof -
  have n: "\<not> is_admin w_listing ''ana''"
    by (simp add: is_admin_def admin_records_def w_listing_def ex_admin_def)
  have m: "matching [Eq ''uid_cliente'' (Some (JStr ''ana'')),
                     Neq ''estado_solicitud'' (JStr ''rechazada'')] (store w_listing ''Citas'') =
           [ex_cita ''c1'' ''ana'' ''espera'' 1679335200000 1678795200000]"
    by (simp add: matching_def w_listing_def ex_cita_def)
  have o: "orderBy ''fecha'' [ex_cita ''c1'' ''ana'' ''espera'' 1679335200000 1678795200000] =
           [ex_cita ''c1'' ''ana'' ''espera'' 1679335200000 1678795200000]"
    by (simp add: orderBy_def ex_cita_def)
  have f: "down w_listing = []" "fst (ex_cita ''c1'' ''ana'' ''espera'' 1679335200000 1678795200000) = ''c1''"
    by (simp_all add: w_listing_def ex_cita_def)
  have r: "consultarCitas data_listing (Some ''ana'') w_listing =
      (Inr [[''id'' \<mapsto> JStr ''c1''] ++
            snd (ex_cita ''c1'' ''ana'' ''espera'' 1679335200000 1678795200000)],
       snd (consultarCitas data_listing (Some ''ana'') w_listing))"
    using n
    by (simp add: consultarCitas_def esAdministrador_run run_defs limit_of_def run_query_def
        data_listing_def f m o startAfter_def limit_to_def)
  from consultarCitas_own_not_rejected [OF r n]
  have "([''id'' \<mapsto> JStr ''c1''] ++
      snd (ex_cita ''c1'' ''ana'' ''espera'' 1679335200000 1678795200000)) ''uid_cliente'' =
     Some (JStr ''ana'') \<and>
   ([''id'' \<mapsto> JStr ''c1''] ++
      snd (ex_cita ''c1'' ''ana'' ''espera'' 1679335200000 1678795200000)) ''estado_solicitud'' \<noteq>
     Some (JStr ''rechazada'')"
    by simp
  moreover have "fst (consultarCitas data_listing (Some ''ana'') w_listing) =
     Inr [[''id'' \<mapsto> JStr ''c1''] ++
          snd (ex_cita ''c1'' ''ana'' ''espera'' 1679335200000 1678795200000)]"
    by (subst r) simp
  ultimately show ?thesis
    by simp
qed

end
